theory Spec2Isabelle
  imports Main
begin

section \<open>State-store provisioning steps of the cluster controller\<close>

text \<open>
  A shallow embedding of \<^verbatim>\<open>internal/controller/state.go\<close>: the two methods
  \<^verbatim>\<open>StateStoreCredentials\<close> and \<^verbatim>\<open>StateStoreCreate\<close> of the cluster controller.

  Both methods are sequences of blocking calls to external collaborators (the cluster
  record store \<^verbatim>\<open>MdbCl\<close>, the AWS client, the civo, digitalocean and vultr packages,
  the logger). The embedding threads an explicit world through every call. The world
  holds the contents of the record store, the two package-level variables of the file,
  and the trace of every call issued so far. What a collaborator answers is not decided
  here: it is read from an environment of answer functions, each of which sees the whole
  trace up to the call, so a collaborator may answer the same call differently at
  different times. The general theorems hold for every environment.
\<close>

subsection \<open>Data\<close>

text \<open>
  \<^verbatim>\<open>types.StateStoreCredentials\<close> and \<^verbatim>\<open>types.StateStoreDetails\<close>, with the fields
  the controller assigns. A field left out of a Go composite literal is the empty string.
\<close>

record types_StateStoreCredentials =
  ssc_AccessKeyID :: string
  ssc_SecretAccessKey :: string
  ssc_Name :: string
  ssc_ID :: string

record types_StateStoreDetails =
  ssd_Name :: string
  ssd_ID :: string
  ssd_Hostname :: string
  ssd_AWSStateStoreBucket :: string
  ssd_AWSArtifactsBucket :: string

text \<open>The zero value of \<^verbatim>\<open>var stateStoreData types.StateStoreCredentials\<close>.\<close>

definition zero_StateStoreCredentials :: types_StateStoreCredentials where
  "zero_StateStoreCredentials =
     \<lparr>ssc_AccessKeyID = '''', ssc_SecretAccessKey = '''', ssc_Name = '''', ssc_ID = ''''\<rparr>"

text \<open>The part of the cluster record the two methods read or have written.\<close>

record Cluster =
  cl_StateStoreCredsCheck :: bool
  cl_StateStoreCreateCheck :: bool
  cl_StateStoreCredentials :: types_StateStoreCredentials
  cl_StateStoreDetails :: types_StateStoreDetails

text \<open>The fields of the receiver \<^verbatim>\<open>clctrl\<close> that the two methods read.\<close>

record ClusterController =
  ClusterName :: string
  CloudProvider :: string
  CloudRegion :: string
  KubefirstStateStoreBucketName :: string
  KubefirstArtifactsBucketName :: string
  AwsAccessKeyID :: string
  AwsSecretAccessKey :: string

text \<open>
  Provider-native values: what the adapters take and return, with the fields the
  controller reads. \<^verbatim>\<open>CreateBucket\<close> of the AWS client returns a pointer to an output
  whose \<^verbatim>\<open>Location\<close> is a \<^verbatim>\<open>*string\<close>; \<open>None\<close> stands for a nil pointer at either
  place, which the controller dereferences without a check. The civo credentials, the
  civo bucket and the vultr object storage are read field by field right after the call,
  the civo credentials even when the call returned an error: they are struct values.
\<close>

record aws_CreateBucketOutput =
  aws_Location :: "string option"

record civo_ObjectStoreCredential =
  civo_AccessKeyID :: string
  civo_ID :: string
  civo_Name :: string
  civo_SecretAccessKeyID :: string

record civo_Bucket =
  bucket_Name :: string
  bucket_ID :: string

record DigitaloceanSpacesCredentials =
  do_AccessKey :: string
  do_SecretAccessKey :: string
  do_Endpoint :: string

record VultrBucketCredentials =
  vb_AccessKey :: string
  vb_SecretAccessKey :: string
  vb_Endpoint :: string

record vultr_ObjectStorage =
  objst_S3AccessKey :: string
  objst_S3SecretKey :: string
  objst_S3Hostname :: string
  objst_Label :: string
  objst_ID :: string

text \<open>
  The second and third argument of \<^verbatim>\<open>UpdateCluster(name, field, value)\<close>: one
  constructor per field name the controller writes, carrying the value written.
\<close>

datatype field_update =
  state_store_details types_StateStoreDetails
| state_store_credentials types_StateStoreCredentials
| state_store_creds_check bool
| state_store_create_check bool

text \<open>
  A Go \<^verbatim>\<open>error\<close> that a method returns. An error value handed over by a collaborator
  is known by its message only. \<^verbatim>\<open>fmt.Errorf(format, args...)\<close> is kept unrendered,
  with its format string and the \<^verbatim>\<open>%s\<close> renderings of its arguments.
\<close>

datatype error =
  ErrorValue string
| Errorf string "string list"

text \<open>How an invocation ends: \<^verbatim>\<open>return nil\<close>, \<^verbatim>\<open>return err\<close>, or a run-time panic.\<close>

datatype outcome = ReturnNil | ReturnErr error | Panic

text \<open>Every call the methods issue, with its arguments, in the order issued.\<close>

datatype event =
  MdbGetCluster string
| MdbUpdateCluster string field_update
| AwsCreateBucket string
| CivoGetAccessCredentials string string
| CivoDeleteAccessCredentials string string
| CivoCreateStorageBucket string string string
| DigitaloceanNewDigitalocean
| DigitaloceanCreateSpaceBucket DigitaloceanSpacesCredentials string
| VultrNewVultr
| VultrCreateObjectStorage string string
| VultrCreateObjectStorageBucket VultrBucketCredentials string
| LogInfo string

text \<open>
  The collaborators' answers. An error answer is the message of the error value
  (\<^verbatim>\<open>err.Error()\<close>); \<open>None\<close> is the nil error. Each function receives the trace
  of the calls issued before the one it answers.
\<close>

record env =
  mdb_GetCluster_error :: "event list \<Rightarrow> string \<Rightarrow> string option"
  mdb_not_found :: "string \<Rightarrow> string"
  mdb_UpdateCluster_error :: "event list \<Rightarrow> string \<Rightarrow> field_update \<Rightarrow> string option"
  aws_CreateBucket :: "event list \<Rightarrow> string \<Rightarrow> string + aws_CreateBucketOutput"
  civo_GetAccessCredentials ::
    "event list \<Rightarrow> string \<Rightarrow> string \<Rightarrow> civo_ObjectStoreCredential \<times> string option"
  civo_DeleteAccessCredentials :: "event list \<Rightarrow> string \<Rightarrow> string \<Rightarrow> string option"
  civo_CreateStorageBucket :: "event list \<Rightarrow> string \<Rightarrow> string \<Rightarrow> string \<Rightarrow> string + civo_Bucket"
  digitalocean_CreateSpaceBucket ::
    "event list \<Rightarrow> DigitaloceanSpacesCredentials \<Rightarrow> string \<Rightarrow> string option"
  vultr_CreateObjectStorage :: "event list \<Rightarrow> string \<Rightarrow> string \<Rightarrow> string + vultr_ObjectStorage"
  vultr_CreateObjectStorageBucket ::
    "event list \<Rightarrow> VultrBucketCredentials \<Rightarrow> string \<Rightarrow> string option"
  os_Getenv :: "string \<Rightarrow> string"

record world =
  trace :: "event list"
  mdb :: "string \<rightharpoonup> Cluster"
  DigitaloceanStateStoreBucketName :: string
  VultrStateStoreBucketHostname :: string

subsection \<open>Collaborator calls\<close>

definition emit :: "event \<Rightarrow> world \<Rightarrow> world" where
  "emit e w = w\<lparr>trace := trace w @ [e]\<rparr>"

text \<open>\<^verbatim>\<open>log.Info(msg)\<close> and \<^verbatim>\<open>log.Infof\<close> with the message already rendered.\<close>

definition log_Info :: "string \<Rightarrow> world \<Rightarrow> world" where
  "log_Info msg w = emit (LogInfo msg) w"

text \<open>
  Modelled from the spec: \<^verbatim>\<open>MdbCl.GetCluster\<close> and \<^verbatim>\<open>MdbCl.UpdateCluster\<close> live
  in the record-store client, outside this file. The spec describes the store as durable
  keyed storage of one record per cluster with \<^verbatim>\<open>get(clusterName)\<close>, a full snapshot
  read, and \<^verbatim>\<open>update(clusterName, field, value)\<close> for named fields; a lookup of a
  cluster that has no record fails, and either call may fail in transport. An update that
  fails leaves the store as it was.
\<close>

definition apply_update :: "field_update \<Rightarrow> Cluster \<Rightarrow> Cluster" where
  "apply_update u cl =
     (case u of
        state_store_details d \<Rightarrow> cl\<lparr>cl_StateStoreDetails := d\<rparr>
      | state_store_credentials c \<Rightarrow> cl\<lparr>cl_StateStoreCredentials := c\<rparr>
      | state_store_creds_check b \<Rightarrow> cl\<lparr>cl_StateStoreCredsCheck := b\<rparr>
      | state_store_create_check b \<Rightarrow> cl\<lparr>cl_StateStoreCreateCheck := b\<rparr>)"

definition GetCluster :: "env \<Rightarrow> string \<Rightarrow> world \<Rightarrow> (string + Cluster) \<times> world" where
  "GetCluster E name w =
     (case mdb_GetCluster_error E (trace w) name of
        Some err \<Rightarrow> (Inl err, emit (MdbGetCluster name) w)
      | None \<Rightarrow>
          (case mdb w name of
             None \<Rightarrow> (Inl (mdb_not_found E name), emit (MdbGetCluster name) w)
           | Some cl \<Rightarrow> (Inr cl, emit (MdbGetCluster name) w)))"

definition UpdateCluster :: "env \<Rightarrow> string \<Rightarrow> field_update \<Rightarrow> world \<Rightarrow> string option \<times> world" where
  "UpdateCluster E name u w =
     (case mdb_UpdateCluster_error E (trace w) name u of
        Some err \<Rightarrow> (Some err, emit (MdbUpdateCluster name u) w)
      | None \<Rightarrow>
          (None, emit (MdbUpdateCluster name u)
                   (w\<lparr>mdb := (case mdb w name of
                                None \<Rightarrow> mdb w
                              | Some cl \<Rightarrow> (mdb w)(name \<mapsto> apply_update u cl))\<rparr>)))"

text \<open>The provider adapters: the answer comes from the environment, the call is traced.\<close>

definition AwsClient_CreateBucket :: "env \<Rightarrow> string \<Rightarrow> world \<Rightarrow> (string + aws_CreateBucketOutput) \<times> world" where
  "AwsClient_CreateBucket E bucketName w =
     (aws_CreateBucket E (trace w) bucketName, emit (AwsCreateBucket bucketName) w)"

definition civo_GetAccessCredentials_call ::
  "env \<Rightarrow> string \<Rightarrow> string \<Rightarrow> world \<Rightarrow> (civo_ObjectStoreCredential \<times> string option) \<times> world" where
  "civo_GetAccessCredentials_call E credentialName region w =
     (civo_GetAccessCredentials E (trace w) credentialName region,
      emit (CivoGetAccessCredentials credentialName region) w)"

definition civo_DeleteAccessCredentials_call ::
  "env \<Rightarrow> string \<Rightarrow> string \<Rightarrow> world \<Rightarrow> string option \<times> world" where
  "civo_DeleteAccessCredentials_call E credentialName region w =
     (civo_DeleteAccessCredentials E (trace w) credentialName region,
      emit (CivoDeleteAccessCredentials credentialName region) w)"

definition civo_CreateStorageBucket_call ::
  "env \<Rightarrow> string \<Rightarrow> string \<Rightarrow> string \<Rightarrow> world \<Rightarrow> (string + civo_Bucket) \<times> world" where
  "civo_CreateStorageBucket_call E accessKeyId bucketName region w =
     (civo_CreateStorageBucket E (trace w) accessKeyId bucketName region,
      emit (CivoCreateStorageBucket accessKeyId bucketName region) w)"

definition digitaloceanConf_CreateSpaceBucket ::
  "env \<Rightarrow> DigitaloceanSpacesCredentials \<Rightarrow> string \<Rightarrow> world \<Rightarrow> string option \<times> world" where
  "digitaloceanConf_CreateSpaceBucket E creds bucketName w =
     (digitalocean_CreateSpaceBucket E (trace w) creds bucketName,
      emit (DigitaloceanCreateSpaceBucket creds bucketName) w)"

definition vultrConf_CreateObjectStorage ::
  "env \<Rightarrow> string \<Rightarrow> string \<Rightarrow> world \<Rightarrow> (string + vultr_ObjectStorage) \<times> world" where
  "vultrConf_CreateObjectStorage E region label w =
     (vultr_CreateObjectStorage E (trace w) region label,
      emit (VultrCreateObjectStorage region label) w)"

definition vultrConf_CreateObjectStorageBucket ::
  "env \<Rightarrow> VultrBucketCredentials \<Rightarrow> string \<Rightarrow> world \<Rightarrow> string option \<times> world" where
  "vultrConf_CreateObjectStorageBucket E creds bucketName w =
     (vultr_CreateObjectStorageBucket E (trace w) creds bucketName,
      emit (VultrCreateObjectStorageBucket creds bucketName) w)"

text \<open>\<^verbatim>\<open>strings.ReplaceAll(s, "/", "")\<close>: every slash removed.\<close>

definition ReplaceAll_slash :: "string \<Rightarrow> string" where
  "ReplaceAll_slash s = filter (\<lambda>c. c \<noteq> CHR ''/'') s"

subsection \<open>StateStoreCredentials\<close>

text \<open>
  Each branch of the \<^verbatim>\<open>switch clctrl.CloudProvider\<close> is a definition of its own. A
  branch either leaves the method (\<open>Inl\<close>, with the outcome) or falls out of the switch
  with the value it assigned to \<^verbatim>\<open>stateStoreData\<close> (\<open>Inr\<close>).
\<close>

definition StateStoreCredentials_aws ::
  "env \<Rightarrow> ClusterController \<Rightarrow> world \<Rightarrow> (outcome + types_StateStoreCredentials) \<times> world" where
  "StateStoreCredentials_aws E clctrl w =
     (case AwsClient_CreateBucket E (KubefirstStateStoreBucketName clctrl) w of
        (Inl err, w1) \<Rightarrow> (Inl (ReturnErr (ErrorValue err)), w1)
      | (Inr kubefirstStateStoreBucket, w1) \<Rightarrow>
          (case AwsClient_CreateBucket E (KubefirstArtifactsBucketName clctrl) w1 of
             (Inl err, w2) \<Rightarrow> (Inl (ReturnErr (ErrorValue err)), w2)
           | (Inr kubefirstArtifactsBucket, w2) \<Rightarrow>
               (let stateStoreData =
                      \<lparr>ssc_AccessKeyID = AwsAccessKeyID clctrl,
                       ssc_SecretAccessKey = AwsSecretAccessKey clctrl,
                       ssc_Name = '''', ssc_ID = ''''\<rparr>
                in case aws_Location kubefirstStateStoreBucket of
                     None \<Rightarrow> (Inl Panic, w2)
                   | Some stateLocation \<Rightarrow>
                       (case aws_Location kubefirstArtifactsBucket of
                          None \<Rightarrow> (Inl Panic, w2)
                        | Some artifactsLocation \<Rightarrow>
                            (case UpdateCluster E (ClusterName clctrl)
                                    (state_store_details
                                       \<lparr>ssd_Name = '''', ssd_ID = '''', ssd_Hostname = '''',
                                        ssd_AWSStateStoreBucket = ReplaceAll_slash stateLocation,
                                        ssd_AWSArtifactsBucket = ReplaceAll_slash artifactsLocation\<rparr>)
                                    w2 of
                               (Some err, w3) \<Rightarrow> (Inl (ReturnErr (ErrorValue err)), w3)
                             | (None, w3) \<Rightarrow> (Inr stateStoreData, w3))))))"

text \<open>The \<^verbatim>\<open>switch\<close> over the four credential fields: the first case that holds wins.\<close>

definition civoCredsFailureMessage :: "civo_ObjectStoreCredential \<Rightarrow> string" where
  "civoCredsFailureMessage creds =
     (if civo_AccessKeyID creds = '''' then
        ''when retrieving civo access credentials, AccessKeyID was empty - please retry your cluster creation''
      else if civo_ID creds = '''' then
        ''when retrieving civo access credentials, ID was empty - please retry your cluster creation''
      else if civo_Name creds = '''' then
        ''when retrieving civo access credentials, Name was empty - please retry your cluster creation''
      else if civo_SecretAccessKeyID creds = '''' then
        ''when retrieving civo access credentials, SecretAccessKeyID was empty - please retry your cluster creation''
      else '''')"

definition StateStoreCredentials_civo ::
  "env \<Rightarrow> ClusterController \<Rightarrow> world \<Rightarrow> (outcome + types_StateStoreCredentials) \<times> world" where
  "StateStoreCredentials_civo E clctrl w =
     (case civo_GetAccessCredentials_call E (KubefirstStateStoreBucketName clctrl) (CloudRegion clctrl) w of
        ((creds, err), w1) \<Rightarrow>
          (let w2 = (case err of Some e \<Rightarrow> log_Info e w1 | None \<Rightarrow> w1)
           in if civoCredsFailureMessage creds \<noteq> '''' then
                (case civo_DeleteAccessCredentials_call E (KubefirstStateStoreBucketName clctrl)
                        (CloudRegion clctrl) w2 of
                   (Some derr, w3) \<Rightarrow> (Inl (ReturnErr (ErrorValue derr)), w3)
                 | (None, w3) \<Rightarrow> (Inl (ReturnErr (Errorf (civoCredsFailureMessage creds) [])), w3))
              else
                (Inr \<lparr>ssc_AccessKeyID = civo_AccessKeyID creds,
                      ssc_SecretAccessKey = civo_SecretAccessKeyID creds,
                      ssc_Name = civo_Name creds,
                      ssc_ID = civo_ID creds\<rparr>, w2)))"

definition StateStoreCredentials_digitalocean ::
  "env \<Rightarrow> ClusterController \<Rightarrow> world \<Rightarrow> (outcome + types_StateStoreCredentials) \<times> world" where
  "StateStoreCredentials_digitalocean E clctrl w =
     (let w1 = emit DigitaloceanNewDigitalocean w;
          creds = \<lparr>do_AccessKey = os_Getenv E ''DO_SPACES_KEY'',
                   do_SecretAccessKey = os_Getenv E ''DO_SPACES_SECRET'',
                   do_Endpoint = ''nyc3'' @ ''.digitaloceanspaces.com''\<rparr>
      in case digitaloceanConf_CreateSpaceBucket E creds (KubefirstStateStoreBucketName clctrl) w1 of
           (Some err, w2) \<Rightarrow>
             (let msg = ''error creating spaces bucket '' @ KubefirstStateStoreBucketName clctrl @ '': '' @ err
              in (Inl (ReturnErr (Errorf msg [])), w2))
         | (None, w2) \<Rightarrow>
             (let stateStoreData =
                    \<lparr>ssc_AccessKeyID = do_AccessKey creds,
                     ssc_SecretAccessKey = do_SecretAccessKey creds,
                     ssc_Name = KubefirstStateStoreBucketName clctrl,
                     ssc_ID = ''''\<rparr>
              in case UpdateCluster E (ClusterName clctrl)
                      (state_store_details
                         \<lparr>ssd_Name = KubefirstStateStoreBucketName clctrl, ssd_ID = '''',
                          ssd_Hostname = do_Endpoint creds,
                          ssd_AWSStateStoreBucket = '''', ssd_AWSArtifactsBucket = ''''\<rparr>)
                      w2 of
                   (Some err, w3) \<Rightarrow> (Inl (ReturnErr (ErrorValue err)), w3)
                 | (None, w3) \<Rightarrow>
                     (Inr stateStoreData, w3\<lparr>DigitaloceanStateStoreBucketName := do_Endpoint creds\<rparr>)))"

definition StateStoreCredentials_vultr ::
  "env \<Rightarrow> ClusterController \<Rightarrow> world \<Rightarrow> (outcome + types_StateStoreCredentials) \<times> world" where
  "StateStoreCredentials_vultr E clctrl w =
     (let w1 = emit VultrNewVultr w
      in case vultrConf_CreateObjectStorage E (CloudRegion clctrl) (KubefirstStateStoreBucketName clctrl) w1 of
           (Inl err, w2) \<Rightarrow> (Inl (ReturnErr (ErrorValue err)), log_Info err w2)
         | (Inr objst, w2) \<Rightarrow>
             (case vultrConf_CreateObjectStorageBucket E
                     \<lparr>vb_AccessKey = objst_S3AccessKey objst,
                      vb_SecretAccessKey = objst_S3SecretKey objst,
                      vb_Endpoint = objst_S3Hostname objst\<rparr>
                     (KubefirstStateStoreBucketName clctrl) w2 of
                (Some err, w3) \<Rightarrow>
                  (Inl (ReturnErr (Errorf ''error creating vultr state storage bucket: %s'' [err])), w3)
              | (None, w3) \<Rightarrow>
                  (let stateStoreData =
                         \<lparr>ssc_AccessKeyID = objst_S3AccessKey objst,
                          ssc_SecretAccessKey = objst_S3SecretKey objst,
                          ssc_Name = objst_Label objst,
                          ssc_ID = objst_ID objst\<rparr>
                   in case UpdateCluster E (ClusterName clctrl)
                           (state_store_details
                              \<lparr>ssd_Name = objst_Label objst, ssd_ID = objst_ID objst,
                               ssd_Hostname = objst_S3Hostname objst,
                               ssd_AWSStateStoreBucket = '''', ssd_AWSArtifactsBucket = ''''\<rparr>)
                           w3 of
                        (Some err, w4) \<Rightarrow> (Inl (ReturnErr (ErrorValue err)), w4)
                      | (None, w4) \<Rightarrow>
                          (Inr stateStoreData,
                           w4\<lparr>VultrStateStoreBucketHostname := objst_S3Hostname objst\<rparr>))))"

text \<open>The switch has no default: any other provider leaves \<^verbatim>\<open>stateStoreData\<close> zero.\<close>

definition StateStoreCredentials_switch ::
  "env \<Rightarrow> ClusterController \<Rightarrow> world \<Rightarrow> (outcome + types_StateStoreCredentials) \<times> world" where
  "StateStoreCredentials_switch E clctrl w =
     (if CloudProvider clctrl = ''aws'' then StateStoreCredentials_aws E clctrl w
      else if CloudProvider clctrl = ''civo'' then StateStoreCredentials_civo E clctrl w
      else if CloudProvider clctrl = ''digitalocean'' then StateStoreCredentials_digitalocean E clctrl w
      else if CloudProvider clctrl = ''vultr'' then StateStoreCredentials_vultr E clctrl w
      else (Inr zero_StateStoreCredentials, w))"

definition StateStoreCredentials :: "env \<Rightarrow> ClusterController \<Rightarrow> world \<Rightarrow> outcome \<times> world" where
  "StateStoreCredentials E clctrl w =
     (case GetCluster E (ClusterName clctrl) w of
        (Inl err, w1) \<Rightarrow> (ReturnErr (ErrorValue err), w1)
      | (Inr cl, w1) \<Rightarrow>
          (if \<not> cl_StateStoreCredsCheck cl then
             (case StateStoreCredentials_switch E clctrl w1 of
                (Inl out, w2) \<Rightarrow> (out, w2)
              | (Inr stateStoreData, w2) \<Rightarrow>
                  (case UpdateCluster E (ClusterName clctrl) (state_store_credentials stateStoreData) w2 of
                     (Some err, w3) \<Rightarrow> (ReturnErr (ErrorValue err), w3)
                   | (None, w3) \<Rightarrow>
                       (case UpdateCluster E (ClusterName clctrl) (state_store_creds_check True) w3 of
                          (Some err, w4) \<Rightarrow> (ReturnErr (ErrorValue err), w4)
                        | (None, w4) \<Rightarrow>
                            (ReturnNil,
                             log_Info (CloudProvider clctrl @ '' object storage credentials created and set'') w4))))
           else (ReturnNil, w1)))"

subsection \<open>StateStoreCreate\<close>

definition StateStoreCreate :: "env \<Rightarrow> ClusterController \<Rightarrow> world \<Rightarrow> outcome \<times> world" where
  "StateStoreCreate E clctrl w =
     (case GetCluster E (ClusterName clctrl) w of
        (Inl err, w1) \<Rightarrow> (ReturnErr (ErrorValue err), w1)
      | (Inr cl, w1) \<Rightarrow>
          (if \<not> cl_StateStoreCreateCheck cl then
             (if CloudProvider clctrl = ''civo'' then
                (let accessKeyId = ssc_AccessKeyID (cl_StateStoreCredentials cl);
                     w2 = log_Info (''access key id '' @ accessKeyId) w1
                 in case civo_CreateStorageBucket_call E accessKeyId
                         (KubefirstStateStoreBucketName clctrl) (CloudRegion clctrl) w2 of
                      (Inl err, w3) \<Rightarrow> (ReturnErr (ErrorValue err), log_Info err w3)
                    | (Inr bucket, w3) \<Rightarrow>
                        (let stateStoreData =
                               \<lparr>ssd_Name = bucket_Name bucket, ssd_ID = bucket_ID bucket,
                                ssd_Hostname = '''', ssd_AWSStateStoreBucket = '''',
                                ssd_AWSArtifactsBucket = ''''\<rparr>
                         in case UpdateCluster E (ClusterName clctrl) (state_store_details stateStoreData) w3 of
                              (Some err, w4) \<Rightarrow> (ReturnErr (ErrorValue err), w4)
                            | (None, w4) \<Rightarrow>
                                (case UpdateCluster E (ClusterName clctrl) (state_store_create_check True) w4 of
                                   (Some err, w5) \<Rightarrow> (ReturnErr (ErrorValue err), w5)
                                 | (None, w5) \<Rightarrow>
                                     (ReturnNil,
                                      log_Info (CloudProvider clctrl @ '' state store bucket created'') w5))))
              else (ReturnNil, w1))
           else (ReturnNil, w1)))"

subsection \<open>Reading a trace\<close>

text \<open>The calls an invocation issued: the trace after it, without the trace before it.\<close>

definition issued :: "world \<Rightarrow> world \<Rightarrow> event list" where
  "issued w w' = drop (length (trace w)) (trace w')"

text \<open>
  A provider-adapter call is any call into the AWS client or the civo, digitalocean or
  vultr package; a field update is a call of \<^verbatim>\<open>UpdateCluster\<close>.
\<close>

fun is_adapter_call :: "event \<Rightarrow> bool" where
  "is_adapter_call (MdbGetCluster _) = False"
| "is_adapter_call (MdbUpdateCluster _ _) = False"
| "is_adapter_call (LogInfo _) = False"
| "is_adapter_call _ = True"

fun is_field_update :: "event \<Rightarrow> bool" where
  "is_field_update (MdbUpdateCluster _ _) = True"
| "is_field_update _ = False"

fun is_details_write :: "event \<Rightarrow> bool" where
  "is_details_write (MdbUpdateCluster _ (state_store_details _)) = True"
| "is_details_write _ = False"

text \<open>The value an event writes to one of the two checkpoint flags, if it writes one.\<close>

fun flag_written :: "event \<Rightarrow> bool option" where
  "flag_written (MdbUpdateCluster _ (state_store_creds_check b)) = Some b"
| "flag_written (MdbUpdateCluster _ (state_store_create_check b)) = Some b"
| "flag_written _ = None"

text \<open>The two checkpoint flags of every stored record.\<close>

definition flags_of :: "(string \<rightharpoonup> Cluster) \<Rightarrow> string \<Rightarrow> (bool \<times> bool) option" where
  "flags_of m name =
     map_option (\<lambda>cl. (cl_StateStoreCredsCheck cl, cl_StateStoreCreateCheck cl)) (m name)"

text \<open>A record is neither created nor deleted, and a flag that was true is still true.\<close>

fun flags_monotone :: "(bool \<times> bool) option \<Rightarrow> (bool \<times> bool) option \<Rightarrow> bool" where
  "flags_monotone None None = True"
| "flags_monotone (Some (a, b)) (Some (a', b')) = ((a \<longrightarrow> a') \<and> (b \<longrightarrow> b'))"
| "flags_monotone _ _ = False"

fun is_DeleteAccessCredentials :: "event \<Rightarrow> bool" where
  "is_DeleteAccessCredentials (CivoDeleteAccessCredentials _ _) = True"
| "is_DeleteAccessCredentials _ = False"

text \<open>
  In the civo branch: the credential object \<^verbatim>\<open>GetAccessCredentials\<close> answers with, and
  the trace at the moment \<^verbatim>\<open>DeleteAccessCredentials\<close> is called (the error of
  \<^verbatim>\<open>GetAccessCredentials\<close>, if any, has been logged by then).
\<close>

definition civo_trace_before_delete :: "env \<Rightarrow> ClusterController \<Rightarrow> world \<Rightarrow> event list" where
  "civo_trace_before_delete E clctrl w =
     trace w @
     [MdbGetCluster (ClusterName clctrl),
      CivoGetAccessCredentials (KubefirstStateStoreBucketName clctrl) (CloudRegion clctrl)] @
     (case snd (civo_GetAccessCredentials E (trace w @ [MdbGetCluster (ClusterName clctrl)])
                  (KubefirstStateStoreBucketName clctrl) (CloudRegion clctrl)) of
        Some e \<Rightarrow> [LogInfo e]
      | None \<Rightarrow> [])"

definition civo_creds_returned :: "env \<Rightarrow> ClusterController \<Rightarrow> world \<Rightarrow> civo_ObjectStoreCredential" where
  "civo_creds_returned E clctrl w =
     fst (civo_GetAccessCredentials E (trace w @ [MdbGetCluster (ClusterName clctrl)])
            (KubefirstStateStoreBucketName clctrl) (CloudRegion clctrl))"

subsection \<open>The credential validator in the words of the specification\<close>

text \<open>
  The specification: check a fixed ordered set of required fields for non-emptiness
  (access key, resource id, resource name, secret key); on the first missing field,
  construct a message identifying exactly that field and instructing the caller to retry
  cluster creation. These three definitions follow that wording; the source's
  \<open>civoCredsFailureMessage\<close> is compared with them.
\<close>

definition spec_required_fields :: "civo_ObjectStoreCredential \<Rightarrow> (string \<times> string) list" where
  "spec_required_fields creds =
     [(''AccessKeyID'', civo_AccessKeyID creds),
      (''ID'', civo_ID creds),
      (''Name'', civo_Name creds),
      (''SecretAccessKeyID'', civo_SecretAccessKeyID creds)]"

definition spec_first_missing_field :: "civo_ObjectStoreCredential \<Rightarrow> string option" where
  "spec_first_missing_field creds =
     map_option fst (find (\<lambda>(field, v). v = '''') (spec_required_fields creds))"

definition spec_failure_message :: "string \<Rightarrow> string" where
  "spec_failure_message field =
     ''when retrieving civo access credentials, '' @ field @
     '' was empty - please retry your cluster creation''"

subsection \<open>A concrete cluster and environment\<close>

text \<open>
  The scenario of the specification: cluster \<^verbatim>\<open>demo\<close> in region \<^verbatim>\<open>nyc1\<close>, a record
  store holding one fresh record, and collaborators that all succeed.
\<close>

definition demo_clctrl :: "string \<Rightarrow> ClusterController" where
  "demo_clctrl provider =
     \<lparr>ClusterName = ''demo'', CloudProvider = provider, CloudRegion = ''nyc1'',
      KubefirstStateStoreBucketName = ''k1-state-store-demo'',
      KubefirstArtifactsBucketName = ''k1-artifacts-demo'',
      AwsAccessKeyID = ''AKIAEXAMPLE'', AwsSecretAccessKey = ''aws-secret''\<rparr>"

definition fresh_Cluster :: Cluster where
  "fresh_Cluster =
     \<lparr>cl_StateStoreCredsCheck = False, cl_StateStoreCreateCheck = False,
      cl_StateStoreCredentials = zero_StateStoreCredentials,
      cl_StateStoreDetails =
        \<lparr>ssd_Name = '''', ssd_ID = '''', ssd_Hostname = '''',
         ssd_AWSStateStoreBucket = '''', ssd_AWSArtifactsBucket = ''''\<rparr>\<rparr>"

definition demo_world :: "Cluster \<Rightarrow> world" where
  "demo_world cl =
     \<lparr>trace = [], mdb = [''demo'' \<mapsto> cl],
      DigitaloceanStateStoreBucketName = '''', VultrStateStoreBucketHostname = ''''\<rparr>"

definition demo_env :: env where
  "demo_env =
     \<lparr>mdb_GetCluster_error = (\<lambda>_ _. None),
      mdb_not_found = (\<lambda>_. ''cluster not found''),
      mdb_UpdateCluster_error = (\<lambda>_ _ _. None),
      aws_CreateBucket = (\<lambda>_ bucketName. Inr \<lparr>aws_Location = Some (''/'' @ bucketName)\<rparr>),
      civo_GetAccessCredentials =
        (\<lambda>_ credentialName _.
           (\<lparr>civo_AccessKeyID = ''AK1'', civo_ID = ''id-1'', civo_Name = credentialName,
             civo_SecretAccessKeyID = ''SK1''\<rparr>, None)),
      civo_DeleteAccessCredentials = (\<lambda>_ _ _. None),
      civo_CreateStorageBucket =
        (\<lambda>_ _ bucketName _. Inr \<lparr>bucket_Name = bucketName, bucket_ID = ''bucket-1''\<rparr>),
      digitalocean_CreateSpaceBucket = (\<lambda>_ _ _. None),
      vultr_CreateObjectStorage =
        (\<lambda>_ _ label.
           Inr \<lparr>objst_S3AccessKey = ''VK1'', objst_S3SecretKey = ''VS1'',
                objst_S3Hostname = ''ewr1.vultrobjects.com'', objst_Label = label,
                objst_ID = ''os-1''\<rparr>),
      vultr_CreateObjectStorageBucket = (\<lambda>_ _ _. None),
      os_Getenv = (\<lambda>_. ''from-env'')\<rparr>"

text \<open>
  The example of the specification: the civo adapter answers with credentials whose
  \<^verbatim>\<open>Name\<close> is empty. In the second environment the compensating delete fails too.
\<close>

definition civo_nameless_env :: env where
  "civo_nameless_env =
     demo_env\<lparr>civo_GetAccessCredentials :=
       (\<lambda>_ _ _. (\<lparr>civo_AccessKeyID = ''AK1'', civo_ID = ''id-1'', civo_Name = '''',
                    civo_SecretAccessKeyID = ''SK1''\<rparr>, None))\<rparr>"

definition civo_delete_failing_env :: env where
  "civo_delete_failing_env =
     civo_nameless_env\<lparr>civo_DeleteAccessCredentials := (\<lambda>_ _ _. Some ''delete failed'')\<rparr>"

text \<open>
  Environments for the runs in which no credential is validated: the two environment
  variables of the digitalocean branch are unset and the vultr object storage comes back
  with empty keys; and the civo adapter returning an error, with an empty credential
  object or with a complete one.
\<close>

definition unvalidated_env :: env where
  "unvalidated_env =
     demo_env\<lparr>os_Getenv := (\<lambda>_. ''''),
               vultr_CreateObjectStorage :=
                 (\<lambda>_ _ label.
                    Inr \<lparr>objst_S3AccessKey = '''', objst_S3SecretKey = '''',
                         objst_S3Hostname = ''ewr1.vultrobjects.com'', objst_Label = '''',
                         objst_ID = ''''\<rparr>)\<rparr>"

definition civo_error_env :: env where
  "civo_error_env =
     demo_env\<lparr>civo_GetAccessCredentials :=
       (\<lambda>_ _ _. (\<lparr>civo_AccessKeyID = '''', civo_ID = '''', civo_Name = '''',
                    civo_SecretAccessKeyID = ''''\<rparr>, Some ''civo: request failed''))\<rparr>"

definition civo_error_with_creds_env :: env where
  "civo_error_with_creds_env =
     demo_env\<lparr>civo_GetAccessCredentials :=
       (\<lambda>_ credentialName _.
          (\<lparr>civo_AccessKeyID = ''AK1'', civo_ID = ''id-1'', civo_Name = credentialName,
            civo_SecretAccessKeyID = ''SK1''\<rparr>, Some ''civo: request failed''))\<rparr>"

section \<open>Properties\<close>

subsection \<open>What each call does to the world\<close>

lemma trace_emit [simp]: "trace (emit e w) = trace w @ [e]"
  by (simp add: emit_def)

lemma mdb_emit [simp]: "mdb (emit e w) = mdb w"
  by (simp add: emit_def)

lemma trace_log_Info [simp]: "trace (log_Info m w) = trace w @ [LogInfo m]"
  by (simp add: log_Info_def)

lemma mdb_log_Info [simp]: "mdb (log_Info m w) = mdb w"
  by (simp add: log_Info_def)

lemma issued_append [simp]: "trace w' = trace w @ evs \<Longrightarrow> issued w w' = evs"
  by (simp add: issued_def)

lemma GetCluster_Inr:
  "fst (GetCluster E name w) = Inr cl \<Longrightarrow>
     GetCluster E name w = (Inr cl, emit (MdbGetCluster name) w) \<and> mdb w name = Some cl"
  by (simp add: GetCluster_def split: option.splits)

lemma snd_GetCluster [simp]: "snd (GetCluster E name w) = emit (MdbGetCluster name) w"
  by (simp add: GetCluster_def split: option.splits)

lemma fst_UpdateCluster [simp]:
  "fst (UpdateCluster E n u w) = mdb_UpdateCluster_error E (trace w) n u"
  by (simp add: UpdateCluster_def split: option.splits)

lemma trace_UpdateCluster [simp]:
  "trace (snd (UpdateCluster E n u w)) = trace w @ [MdbUpdateCluster n u]"
  by (simp add: UpdateCluster_def split: option.splits)

lemma mdb_UpdateCluster:
  "mdb (snd (UpdateCluster E n u w)) =
     (case mdb_UpdateCluster_error E (trace w) n u of
        Some err \<Rightarrow> mdb w
      | None \<Rightarrow> (case mdb w n of None \<Rightarrow> mdb w | Some cl \<Rightarrow> (mdb w)(n \<mapsto> apply_update u cl)))"
  by (simp add: UpdateCluster_def split: option.splits)

lemma flags_of_details [simp]:
  "flags_of (mdb (snd (UpdateCluster E n (state_store_details d) w))) = flags_of (mdb w)"
  by (rule ext) (simp add: mdb_UpdateCluster flags_of_def apply_update_def split: option.splits)

lemma flags_of_credentials [simp]:
  "flags_of (mdb (snd (UpdateCluster E n (state_store_credentials d) w))) = flags_of (mdb w)"
  by (rule ext) (simp add: mdb_UpdateCluster flags_of_def apply_update_def split: option.splits)

lemma flags_monotone_refl [simp]: "flags_monotone x x"
  by (cases x) auto

lemma flags_monotone_check_True:
  "u = state_store_creds_check True \<or> u = state_store_create_check True \<Longrightarrow>
   flags_monotone (flags_of (mdb w) name) (flags_of (mdb (snd (UpdateCluster E n u w))) name)"
  by (auto simp: mdb_UpdateCluster flags_of_def apply_update_def split: option.splits)

lemma flags_after_creds_writes:
  "flags_of (mdb w2) = flags_of (mdb w) \<Longrightarrow>
   flags_monotone (flags_of (mdb w) name)
     (flags_of (mdb (snd (UpdateCluster E n (state_store_creds_check True)
                       (snd (UpdateCluster E n (state_store_credentials d) w2))))) name)"
  using flags_monotone_check_True
          [of "state_store_creds_check True" "snd (UpdateCluster E n (state_store_credentials d) w2)" name E n]
  by simp

lemma flags_after_create_writes:
  "flags_of (mdb w2) = flags_of (mdb w) \<Longrightarrow>
   flags_monotone (flags_of (mdb w) name)
     (flags_of (mdb (snd (UpdateCluster E n (state_store_create_check True)
                       (snd (UpdateCluster E n (state_store_details d) w2))))) name)"
  using flags_monotone_check_True
          [of "state_store_create_check True" "snd (UpdateCluster E n (state_store_details d) w2)" name E n]
  by simp

lemma flag_written_None: "\<not> is_field_update e \<or> is_details_write e \<Longrightarrow> flag_written e = None"
  by (cases e rule: flag_written.cases) auto

lemmas adapter_defs = AwsClient_CreateBucket_def
  civo_GetAccessCredentials_call_def civo_DeleteAccessCredentials_call_def
  civo_CreateStorageBucket_call_def digitaloceanConf_CreateSpaceBucket_def
  vultrConf_CreateObjectStorage_def vultrConf_CreateObjectStorageBucket_def

subsection \<open>The branches of the provider switch\<close>

text \<open>
  Whatever a branch does, the only field it updates is \<^verbatim>\<open>state_store_details\<close>, it
  leaves both checkpoint flags of every record alone, and it never ends the method with
  a nil error: it either returns an error, panics, or falls out of the switch.
\<close>

lemma aws_effect:
  "(\<exists>evs. trace (snd (StateStoreCredentials_aws E c w)) = trace w @ evs
      \<and> (\<forall>e\<in>set evs. is_field_update e \<longrightarrow> is_details_write e))
   \<and> flags_of (mdb (snd (StateStoreCredentials_aws E c w))) = flags_of (mdb w)
   \<and> fst (StateStoreCredentials_aws E c w) \<noteq> Inl ReturnNil"
  by (simp add: StateStoreCredentials_aws_def adapter_defs split_beta Let_def
       split: sum.splits option.splits)

lemma civo_effect:
  "(\<exists>evs. trace (snd (StateStoreCredentials_civo E c w)) = trace w @ evs
      \<and> (\<forall>e\<in>set evs. is_field_update e \<longrightarrow> is_details_write e))
   \<and> flags_of (mdb (snd (StateStoreCredentials_civo E c w))) = flags_of (mdb w)
   \<and> fst (StateStoreCredentials_civo E c w) \<noteq> Inl ReturnNil"
  by (simp add: StateStoreCredentials_civo_def adapter_defs split_beta Let_def
       split: sum.splits option.splits)

lemma digitalocean_effect:
  "(\<exists>evs. trace (snd (StateStoreCredentials_digitalocean E c w)) = trace w @ evs
      \<and> (\<forall>e\<in>set evs. is_field_update e \<longrightarrow> is_details_write e))
   \<and> flags_of (mdb (snd (StateStoreCredentials_digitalocean E c w))) = flags_of (mdb w)
   \<and> fst (StateStoreCredentials_digitalocean E c w) \<noteq> Inl ReturnNil"
  by (simp add: StateStoreCredentials_digitalocean_def adapter_defs split_beta Let_def
       split: sum.splits option.splits)

lemma vultr_effect:
  "(\<exists>evs. trace (snd (StateStoreCredentials_vultr E c w)) = trace w @ evs
      \<and> (\<forall>e\<in>set evs. is_field_update e \<longrightarrow> is_details_write e))
   \<and> flags_of (mdb (snd (StateStoreCredentials_vultr E c w))) = flags_of (mdb w)
   \<and> fst (StateStoreCredentials_vultr E c w) \<noteq> Inl ReturnNil"
  by (simp add: StateStoreCredentials_vultr_def adapter_defs split_beta Let_def
       split: sum.splits option.splits)

lemma switch_effect:
  "(\<exists>evs. trace (snd (StateStoreCredentials_switch E c w)) = trace w @ evs
      \<and> (\<forall>e\<in>set evs. is_field_update e \<longrightarrow> is_details_write e))
   \<and> flags_of (mdb (snd (StateStoreCredentials_switch E c w))) = flags_of (mdb w)
   \<and> fst (StateStoreCredentials_switch E c w) \<noteq> Inl ReturnNil"
  using aws_effect [of E c w] civo_effect [of E c w]
    digitalocean_effect [of E c w] vultr_effect [of E c w]
  by (simp add: StateStoreCredentials_switch_def)

text \<open>
  A successful run that found the checkpoint false: the switch fell through with a
  value \<open>d\<close>, and the calls after the switch are the write of \<open>d\<close>, the write of the
  checkpoint, and the log line.
\<close>

lemma StateStoreCredentials_success:
  assumes get: "fst (GetCluster E (ClusterName c) w) = Inr cl"
    and chk: "\<not> cl_StateStoreCredsCheck cl"
    and ok: "fst (StateStoreCredentials E c w) = ReturnNil"
  shows "\<exists>evs d. fst (StateStoreCredentials_switch E c (emit (MdbGetCluster (ClusterName c)) w)) = Inr d
     \<and> trace (snd (StateStoreCredentials E c w)) =
         trace w @ [MdbGetCluster (ClusterName c)] @ evs @
           [MdbUpdateCluster (ClusterName c) (state_store_credentials d),
            MdbUpdateCluster (ClusterName c) (state_store_creds_check True),
            LogInfo (CloudProvider c @ '' object storage credentials created and set'')]
     \<and> (\<forall>e\<in>set evs. is_field_update e \<longrightarrow> is_details_write e)"
proof -
  let ?w1 = "emit (MdbGetCluster (ClusterName c)) w"
  let ?sw = "StateStoreCredentials_switch E c ?w1"
  from switch_effect [of E c ?w1] obtain evs where
    tr: "trace (snd ?sw) = trace ?w1 @ evs"
    and dw: "\<forall>e\<in>set evs. is_field_update e \<longrightarrow> is_details_write e"
    and nn: "fst ?sw \<noteq> Inl ReturnNil"
    by auto
  from GetCluster_Inr [OF get] have g: "GetCluster E (ClusterName c) w = (Inr cl, ?w1)"
    by simp
  from ok g chk nn obtain d where d: "fst ?sw = Inr d"
    by (cases "fst ?sw") (auto simp: StateStoreCredentials_def split_beta)
  from ok g chk d tr
  have "trace (snd (StateStoreCredentials E c w)) =
         trace w @ [MdbGetCluster (ClusterName c)] @ evs @
           [MdbUpdateCluster (ClusterName c) (state_store_credentials d),
            MdbUpdateCluster (ClusterName c) (state_store_creds_check True),
            LogInfo (CloudProvider c @ '' object storage credentials created and set'')]"
    by (simp add: StateStoreCredentials_def split_beta split: option.splits)
  with d dw show ?thesis by blast
qed

text \<open>Every run, successful or not: what is written to a flag, and the flags stored.\<close>

lemma StateStoreCredentials_effect:
  "\<exists>evs. trace (snd (StateStoreCredentials E c w)) = trace w @ evs
     \<and> (\<forall>e\<in>set evs. flag_written e = None \<or> flag_written e = Some True)"
proof -
  let ?w1 = "emit (MdbGetCluster (ClusterName c)) w"
  let ?sw = "StateStoreCredentials_switch E c ?w1"
  from switch_effect [of E c ?w1] obtain evs where
    tr: "trace (snd ?sw) = trace ?w1 @ evs"
    and dw: "\<forall>e\<in>set evs. is_field_update e \<longrightarrow> is_details_write e"
    by auto
  from dw have fw: "\<forall>e\<in>set evs. flag_written e = None"
    using flag_written_None by blast
  show ?thesis
    using tr fw
    by (simp add: StateStoreCredentials_def split_beta split: sum.splits option.splits)
qed

lemma StateStoreCredentials_flags:
  "flags_monotone (flags_of (mdb w) name) (flags_of (mdb (snd (StateStoreCredentials E c w))) name)"
proof -
  let ?w1 = "emit (MdbGetCluster (ClusterName c)) w"
  let ?sw = "StateStoreCredentials_switch E c ?w1"
  from switch_effect [of E c ?w1] have fl: "flags_of (mdb (snd ?sw)) = flags_of (mdb w)"
    by simp
  show ?thesis
    using fl flags_after_creds_writes [OF fl]
    by (simp add: StateStoreCredentials_def split_beta split: sum.splits option.splits)
qed

lemma StateStoreCreate_effect:
  "\<exists>evs. trace (snd (StateStoreCreate E c w)) = trace w @ evs
     \<and> (\<forall>e\<in>set evs. flag_written e = None \<or> flag_written e = Some True)"
  by (simp add: StateStoreCreate_def adapter_defs split_beta Let_def split: sum.splits option.splits)

lemma StateStoreCreate_flags:
  "flags_monotone (flags_of (mdb w) name) (flags_of (mdb (snd (StateStoreCreate E c w))) name)"
  by (simp add: StateStoreCreate_def adapter_defs split_beta Let_def flags_after_create_writes
        split: sum.splits option.splits)

text \<open>Where the calls of a run of \<^verbatim>\<open>StateStoreCredentials\<close> come from.\<close>

lemma StateStoreCredentials_events:
  assumes "e \<in> set (issued w (snd (StateStoreCredentials E c w)))"
  shows "e = MdbGetCluster (ClusterName c)
       \<or> e \<in> set (issued (emit (MdbGetCluster (ClusterName c)) w)
                    (snd (StateStoreCredentials_switch E c (emit (MdbGetCluster (ClusterName c)) w))))
       \<or> (\<exists>d. e = MdbUpdateCluster (ClusterName c) (state_store_credentials d))
       \<or> e = MdbUpdateCluster (ClusterName c) (state_store_creds_check True)
       \<or> e = LogInfo (CloudProvider c @ '' object storage credentials created and set'')"
proof -
  let ?w1 = "emit (MdbGetCluster (ClusterName c)) w"
  let ?sw = "StateStoreCredentials_switch E c ?w1"
  from switch_effect [of E c ?w1] obtain evs where
    tr: "trace (snd ?sw) = trace ?w1 @ evs"
    by auto
  have i: "issued ?w1 (snd ?sw) = evs"
    using tr by simp
  show ?thesis
    using assms tr unfolding i
    by (simp add: StateStoreCredentials_def split_beta issued_def split: sum.splits option.splits if_splits)
      blast+
qed


lemma digitalocean_branch_events:
  assumes "e \<in> set (issued w (snd (StateStoreCredentials_digitalocean E c w)))"
  shows "(\<forall>creds b. e = DigitaloceanCreateSpaceBucket creds b \<longrightarrow>
                do_Endpoint creds = ''nyc3.digitaloceanspaces.com'')
          \<and> (\<forall>n d. e = MdbUpdateCluster n (state_store_details d) \<longrightarrow>
                ssd_Hostname d = ''nyc3.digitaloceanspaces.com'')"
  using assms
  by (simp add: StateStoreCredentials_digitalocean_def adapter_defs split_beta Let_def issued_def
        split: option.splits if_splits)
    auto

subsection \<open>The civo branch when validation fails\<close>

lemma civoCredsFailureMessage_spec:
  "civoCredsFailureMessage creds =
     (case spec_first_missing_field creds of None \<Rightarrow> '''' | Some field \<Rightarrow> spec_failure_message field)"
  by (simp add: civoCredsFailureMessage_def spec_first_missing_field_def spec_required_fields_def
        spec_failure_message_def)

lemma civo_validation_failure:
  assumes civo: "CloudProvider c = ''civo''"
    and get: "fst (GetCluster E (ClusterName c) w) = Inr cl"
    and chk: "\<not> cl_StateStoreCredsCheck cl"
    and bad: "civoCredsFailureMessage (civo_creds_returned E c w) \<noteq> ''''"
  shows "fst (StateStoreCredentials E c w) =
           (case civo_DeleteAccessCredentials E (civo_trace_before_delete E c w)
                   (KubefirstStateStoreBucketName c) (CloudRegion c) of
              Some derr \<Rightarrow> ReturnErr (ErrorValue derr)
            | None \<Rightarrow> ReturnErr (Errorf (civoCredsFailureMessage (civo_creds_returned E c w)) []))"
    and "trace (snd (StateStoreCredentials E c w)) =
           civo_trace_before_delete E c w @
           [CivoDeleteAccessCredentials (KubefirstStateStoreBucketName c) (CloudRegion c)]"
    and "mdb (snd (StateStoreCredentials E c w)) = mdb w"
proof -
  from GetCluster_Inr [OF get] have g: "GetCluster E (ClusterName c) w = (Inr cl, emit (MdbGetCluster (ClusterName c)) w)"
    by simp
  show "fst (StateStoreCredentials E c w) =
           (case civo_DeleteAccessCredentials E (civo_trace_before_delete E c w)
                   (KubefirstStateStoreBucketName c) (CloudRegion c) of
              Some derr \<Rightarrow> ReturnErr (ErrorValue derr)
            | None \<Rightarrow> ReturnErr (Errorf (civoCredsFailureMessage (civo_creds_returned E c w)) []))"
    using bad
    by (simp add: StateStoreCredentials_def StateStoreCredentials_switch_def civo g chk
          StateStoreCredentials_civo_def adapter_defs split_beta Let_def
          civo_trace_before_delete_def civo_creds_returned_def
          split: option.splits)
  show "trace (snd (StateStoreCredentials E c w)) =
           civo_trace_before_delete E c w @
           [CivoDeleteAccessCredentials (KubefirstStateStoreBucketName c) (CloudRegion c)]"
    using bad
    by (simp add: StateStoreCredentials_def StateStoreCredentials_switch_def civo g chk
          StateStoreCredentials_civo_def adapter_defs split_beta Let_def
          civo_trace_before_delete_def civo_creds_returned_def
          split: option.splits)
  show "mdb (snd (StateStoreCredentials E c w)) = mdb w"
    using bad
    by (simp add: StateStoreCredentials_def StateStoreCredentials_switch_def civo g chk
          StateStoreCredentials_civo_def adapter_defs split_beta Let_def
          civo_trace_before_delete_def civo_creds_returned_def
          split: option.splits)
qed


text \<open>
  The other adapter calls of the file, for comparison with the civo
  \<^verbatim>\<open>GetAccessCredentials\<close> call: an error of the first aws \<^verbatim>\<open>CreateBucket\<close>, of the
  vultr \<^verbatim>\<open>CreateObjectStorage\<close> and of the civo \<^verbatim>\<open>CreateStorageBucket\<close> is returned
  as it is, and nothing is written to the store.
\<close>

lemma sibling_adapter_errors_returned:
  assumes "fst (GetCluster E (ClusterName c) w) = Inr cl"
  shows "\<not> cl_StateStoreCredsCheck cl \<Longrightarrow> CloudProvider c = ''aws'' \<Longrightarrow>
           aws_CreateBucket E (trace w @ [MdbGetCluster (ClusterName c)])
             (KubefirstStateStoreBucketName c) = Inl err \<Longrightarrow>
           fst (StateStoreCredentials E c w) = ReturnErr (ErrorValue err)
           \<and> mdb (snd (StateStoreCredentials E c w)) = mdb w"
    and "\<not> cl_StateStoreCredsCheck cl \<Longrightarrow> CloudProvider c = ''vultr'' \<Longrightarrow>
           vultr_CreateObjectStorage E (trace w @ [MdbGetCluster (ClusterName c), VultrNewVultr])
             (CloudRegion c) (KubefirstStateStoreBucketName c) = Inl err \<Longrightarrow>
           fst (StateStoreCredentials E c w) = ReturnErr (ErrorValue err)
           \<and> mdb (snd (StateStoreCredentials E c w)) = mdb w"
    and "\<not> cl_StateStoreCreateCheck cl \<Longrightarrow> CloudProvider c = ''civo'' \<Longrightarrow>
           civo_CreateStorageBucket E
             (trace w @ [MdbGetCluster (ClusterName c),
                         LogInfo (''access key id '' @ ssc_AccessKeyID (cl_StateStoreCredentials cl))])
             (ssc_AccessKeyID (cl_StateStoreCredentials cl))
             (KubefirstStateStoreBucketName c) (CloudRegion c) = Inl err \<Longrightarrow>
           fst (StateStoreCreate E c w) = ReturnErr (ErrorValue err)
           \<and> mdb (snd (StateStoreCreate E c w)) = mdb w"
proof -
  from GetCluster_Inr [OF assms]
  have g: "GetCluster E (ClusterName c) w = (Inr cl, emit (MdbGetCluster (ClusterName c)) w)"
    by simp
  show "\<not> cl_StateStoreCredsCheck cl \<Longrightarrow> CloudProvider c = ''aws'' \<Longrightarrow>
           aws_CreateBucket E (trace w @ [MdbGetCluster (ClusterName c)])
             (KubefirstStateStoreBucketName c) = Inl err \<Longrightarrow>
           fst (StateStoreCredentials E c w) = ReturnErr (ErrorValue err)
           \<and> mdb (snd (StateStoreCredentials E c w)) = mdb w"
    by (simp add: StateStoreCredentials_def StateStoreCredentials_switch_def g
          StateStoreCredentials_aws_def adapter_defs)
  show "\<not> cl_StateStoreCredsCheck cl \<Longrightarrow> CloudProvider c = ''vultr'' \<Longrightarrow>
           vultr_CreateObjectStorage E (trace w @ [MdbGetCluster (ClusterName c), VultrNewVultr])
             (CloudRegion c) (KubefirstStateStoreBucketName c) = Inl err \<Longrightarrow>
           fst (StateStoreCredentials E c w) = ReturnErr (ErrorValue err)
           \<and> mdb (snd (StateStoreCredentials E c w)) = mdb w"
    by (simp add: StateStoreCredentials_def StateStoreCredentials_switch_def g
          StateStoreCredentials_vultr_def adapter_defs Let_def)
  show "\<not> cl_StateStoreCreateCheck cl \<Longrightarrow> CloudProvider c = ''civo'' \<Longrightarrow>
           civo_CreateStorageBucket E
             (trace w @ [MdbGetCluster (ClusterName c),
                         LogInfo (''access key id '' @ ssc_AccessKeyID (cl_StateStoreCredentials cl))])
             (ssc_AccessKeyID (cl_StateStoreCredentials cl))
             (KubefirstStateStoreBucketName c) (CloudRegion c) = Inl err \<Longrightarrow>
           fst (StateStoreCreate E c w) = ReturnErr (ErrorValue err)
           \<and> mdb (snd (StateStoreCreate E c w)) = mdb w"
    by (simp add: StateStoreCreate_def g adapter_defs Let_def)
qed

subsection \<open>Runs of the concrete cluster\<close>

lemmas demo_defs = demo_env_def demo_clctrl_def demo_world_def fresh_Cluster_def
  zero_StateStoreCredentials_def

lemmas run_defs = StateStoreCredentials_def StateStoreCredentials_switch_def
  StateStoreCredentials_aws_def StateStoreCredentials_civo_def
  StateStoreCredentials_digitalocean_def StateStoreCredentials_vultr_def
  StateStoreCreate_def GetCluster_def UpdateCluster_def adapter_defs
  civoCredsFailureMessage_def apply_update_def ReplaceAll_slash_def log_Info_def emit_def
  issued_def Let_def

lemma demo_ClusterName [simp]: "ClusterName (demo_clctrl p) = ''demo''"
  and demo_CloudProvider [simp]: "CloudProvider (demo_clctrl p) = p"
  by (simp_all add: demo_clctrl_def)

lemma demo_GetCluster: "fst (GetCluster demo_env ''demo'' (demo_world cl)) = Inr cl"
  by (simp add: GetCluster_def demo_env_def demo_world_def)

lemma demo_clctrl_fields [simp]:
  "CloudRegion (demo_clctrl p) = ''nyc1''"
  "KubefirstStateStoreBucketName (demo_clctrl p) = ''k1-state-store-demo''"
  "KubefirstArtifactsBucketName (demo_clctrl p) = ''k1-artifacts-demo''"
  "AwsAccessKeyID (demo_clctrl p) = ''AKIAEXAMPLE''"
  "AwsSecretAccessKey (demo_clctrl p) = ''aws-secret''"
  by (simp_all add: demo_clctrl_def)

lemma civo_nameless_facts:
  "civo_creds_returned civo_nameless_env (demo_clctrl ''civo'') (demo_world fresh_Cluster) =
     \<lparr>civo_AccessKeyID = ''AK1'', civo_ID = ''id-1'', civo_Name = '''', civo_SecretAccessKeyID = ''SK1''\<rparr>"
  "civo_trace_before_delete civo_nameless_env (demo_clctrl ''civo'') (demo_world fresh_Cluster) =
     [MdbGetCluster ''demo'', CivoGetAccessCredentials ''k1-state-store-demo'' ''nyc1'']"
  "fst (GetCluster civo_nameless_env ''demo'' (demo_world fresh_Cluster)) = Inr fresh_Cluster"
  by (simp_all add: civo_creds_returned_def civo_trace_before_delete_def civo_nameless_env_def
        GetCluster_def demo_defs)

lemma civo_delete_failing_facts:
  "civo_creds_returned civo_delete_failing_env (demo_clctrl ''civo'') (demo_world fresh_Cluster) =
     \<lparr>civo_AccessKeyID = ''AK1'', civo_ID = ''id-1'', civo_Name = '''', civo_SecretAccessKeyID = ''SK1''\<rparr>"
  "civo_trace_before_delete civo_delete_failing_env (demo_clctrl ''civo'') (demo_world fresh_Cluster) =
     [MdbGetCluster ''demo'', CivoGetAccessCredentials ''k1-state-store-demo'' ''nyc1'']"
  "fst (GetCluster civo_delete_failing_env ''demo'' (demo_world fresh_Cluster)) = Inr fresh_Cluster"
  by (simp_all add: civo_creds_returned_def civo_trace_before_delete_def civo_nameless_env_def
        civo_delete_failing_env_def GetCluster_def demo_defs)

lemma demo_unvalidated_runs:
  "fst (StateStoreCredentials demo_env (demo_clctrl ''gcp'') (demo_world fresh_Cluster)) = ReturnNil"
  "map_option (\<lambda>cl. (cl_StateStoreCredsCheck cl, cl_StateStoreCredentials cl))
     (mdb (snd (StateStoreCredentials demo_env (demo_clctrl ''gcp'') (demo_world fresh_Cluster))) ''demo'') =
     Some (True, zero_StateStoreCredentials)"
  "fst (StateStoreCredentials demo_env
          ((demo_clctrl ''aws'')\<lparr>AwsAccessKeyID := '''', AwsSecretAccessKey := ''''\<rparr>)
          (demo_world fresh_Cluster)) = ReturnNil"
  "map_option (\<lambda>cl. (cl_StateStoreCredsCheck cl, cl_StateStoreCredentials cl))
     (mdb (snd (StateStoreCredentials demo_env
          ((demo_clctrl ''aws'')\<lparr>AwsAccessKeyID := '''', AwsSecretAccessKey := ''''\<rparr>)
          (demo_world fresh_Cluster))) ''demo'') =
     Some (True, zero_StateStoreCredentials)"
  "fst (StateStoreCredentials unvalidated_env (demo_clctrl ''digitalocean'') (demo_world fresh_Cluster))
     = ReturnNil"
  "map_option (\<lambda>cl. (cl_StateStoreCredsCheck cl, cl_StateStoreCredentials cl))
     (mdb (snd (StateStoreCredentials unvalidated_env (demo_clctrl ''digitalocean'')
                  (demo_world fresh_Cluster))) ''demo'') =
     Some (True, \<lparr>ssc_AccessKeyID = '''', ssc_SecretAccessKey = '''',
                  ssc_Name = ''k1-state-store-demo'', ssc_ID = ''''\<rparr>)"
  "fst (StateStoreCredentials unvalidated_env (demo_clctrl ''vultr'') (demo_world fresh_Cluster))
     = ReturnNil"
  "map_option (\<lambda>cl. (cl_StateStoreCredsCheck cl, cl_StateStoreCredentials cl))
     (mdb (snd (StateStoreCredentials unvalidated_env (demo_clctrl ''vultr'')
                  (demo_world fresh_Cluster))) ''demo'') =
     Some (True, zero_StateStoreCredentials)"
  "trace (snd (StateStoreCredentials demo_env (demo_clctrl ''gcp'') (demo_world fresh_Cluster))) =
     [MdbGetCluster ''demo'',
      MdbUpdateCluster ''demo'' (state_store_credentials
         \<lparr>ssc_AccessKeyID = '''', ssc_SecretAccessKey = '''', ssc_Name = '''', ssc_ID = ''''\<rparr>),
      MdbUpdateCluster ''demo'' (state_store_creds_check True),
      LogInfo ''gcp object storage credentials created and set'']"
  by (simp_all add: run_defs demo_defs unvalidated_env_def)

lemma civo_error_runs:
  "snd (civo_GetAccessCredentials civo_error_env [MdbGetCluster ''demo''] ''k1-state-store-demo'' ''nyc1'')
     = Some ''civo: request failed''"
  "fst (StateStoreCredentials civo_error_env (demo_clctrl ''civo'') (demo_world fresh_Cluster)) =
     ReturnErr (Errorf
       ''when retrieving civo access credentials, AccessKeyID was empty - please retry your cluster creation'' [])"
  "trace (snd (StateStoreCredentials civo_error_env (demo_clctrl ''civo'') (demo_world fresh_Cluster))) =
     [MdbGetCluster ''demo'',
      CivoGetAccessCredentials ''k1-state-store-demo'' ''nyc1'',
      LogInfo ''civo: request failed'',
      CivoDeleteAccessCredentials ''k1-state-store-demo'' ''nyc1'']"
  "snd (civo_GetAccessCredentials civo_error_with_creds_env [MdbGetCluster ''demo'']
          ''k1-state-store-demo'' ''nyc1'')
     = Some ''civo: request failed''"
  "fst (StateStoreCredentials civo_error_with_creds_env (demo_clctrl ''civo'') (demo_world fresh_Cluster))
     = ReturnNil"
  "trace (snd (StateStoreCredentials civo_error_with_creds_env (demo_clctrl ''civo'')
                 (demo_world fresh_Cluster))) =
     [MdbGetCluster ''demo'',
      CivoGetAccessCredentials ''k1-state-store-demo'' ''nyc1'',
      LogInfo ''civo: request failed'',
      MdbUpdateCluster ''demo'' (state_store_credentials
         \<lparr>ssc_AccessKeyID = ''AK1'', ssc_SecretAccessKey = ''SK1'',
          ssc_Name = ''k1-state-store-demo'', ssc_ID = ''id-1''\<rparr>),
      MdbUpdateCluster ''demo'' (state_store_creds_check True),
      LogInfo ''civo object storage credentials created and set'']"
  "map_option cl_StateStoreCredsCheck
     (mdb (snd (StateStoreCredentials civo_error_with_creds_env (demo_clctrl ''civo'')
                  (demo_world fresh_Cluster))) ''demo'') = Some True"
  by (simp_all add: run_defs demo_defs civo_error_env_def civo_error_with_creds_env_def)

lemma demo_digitalocean_credentials:
  "fst (StateStoreCredentials demo_env (demo_clctrl ''digitalocean'') (demo_world fresh_Cluster)) = ReturnNil"
  "issued (demo_world fresh_Cluster)
     (snd (StateStoreCredentials demo_env (demo_clctrl ''digitalocean'') (demo_world fresh_Cluster))) =
     [MdbGetCluster ''demo'',
      DigitaloceanNewDigitalocean,
      DigitaloceanCreateSpaceBucket
        \<lparr>do_AccessKey = ''from-env'', do_SecretAccessKey = ''from-env'',
         do_Endpoint = ''nyc3.digitaloceanspaces.com''\<rparr> ''k1-state-store-demo'',
      MdbUpdateCluster ''demo'' (state_store_details
         \<lparr>ssd_Name = ''k1-state-store-demo'', ssd_ID = '''',
          ssd_Hostname = ''nyc3.digitaloceanspaces.com'',
          ssd_AWSStateStoreBucket = '''', ssd_AWSArtifactsBucket = ''''\<rparr>),
      MdbUpdateCluster ''demo'' (state_store_credentials
         \<lparr>ssc_AccessKeyID = ''from-env'', ssc_SecretAccessKey = ''from-env'',
          ssc_Name = ''k1-state-store-demo'', ssc_ID = ''''\<rparr>),
      MdbUpdateCluster ''demo'' (state_store_creds_check True),
      LogInfo ''digitalocean object storage credentials created and set'']"
  by (simp_all add: run_defs demo_defs)

lemma demo_civo_credentials:
  "fst (StateStoreCredentials demo_env (demo_clctrl ''civo'') (demo_world fresh_Cluster)) = ReturnNil"
  "issued (demo_world fresh_Cluster)
     (snd (StateStoreCredentials demo_env (demo_clctrl ''civo'') (demo_world fresh_Cluster))) =
     [MdbGetCluster ''demo'',
      CivoGetAccessCredentials ''k1-state-store-demo'' ''nyc1'',
      MdbUpdateCluster ''demo'' (state_store_credentials
         \<lparr>ssc_AccessKeyID = ''AK1'', ssc_SecretAccessKey = ''SK1'',
          ssc_Name = ''k1-state-store-demo'', ssc_ID = ''id-1''\<rparr>),
      MdbUpdateCluster ''demo'' (state_store_creds_check True),
      LogInfo ''civo object storage credentials created and set'']"
  "mdb (snd (StateStoreCredentials demo_env (demo_clctrl ''civo'') (demo_world fresh_Cluster))) ''demo'' =
     Some (fresh_Cluster
       \<lparr>cl_StateStoreCredsCheck := True,
        cl_StateStoreCredentials :=
          \<lparr>ssc_AccessKeyID = ''AK1'', ssc_SecretAccessKey = ''SK1'',
           ssc_Name = ''k1-state-store-demo'', ssc_ID = ''id-1''\<rparr>\<rparr>)"
  by (simp_all add: run_defs demo_defs)

lemma demo_civo_create:
  "fst (StateStoreCreate demo_env (demo_clctrl ''civo'') (demo_world fresh_Cluster)) = ReturnNil"
  "issued (demo_world fresh_Cluster)
     (snd (StateStoreCreate demo_env (demo_clctrl ''civo'') (demo_world fresh_Cluster))) =
     [MdbGetCluster ''demo'',
      LogInfo ''access key id '',
      CivoCreateStorageBucket '''' ''k1-state-store-demo'' ''nyc1'',
      MdbUpdateCluster ''demo'' (state_store_details
         \<lparr>ssd_Name = ''k1-state-store-demo'', ssd_ID = ''bucket-1'', ssd_Hostname = '''',
          ssd_AWSStateStoreBucket = '''', ssd_AWSArtifactsBucket = ''''\<rparr>),
      MdbUpdateCluster ''demo'' (state_store_create_check True),
      LogInfo ''civo state store bucket created'']"
  "mdb (snd (StateStoreCreate demo_env (demo_clctrl ''civo'') (demo_world fresh_Cluster))) ''demo'' =
     Some (fresh_Cluster
       \<lparr>cl_StateStoreCreateCheck := True,
        cl_StateStoreDetails :=
         \<lparr>ssd_Name = ''k1-state-store-demo'', ssd_ID = ''bucket-1'', ssd_Hostname = '''',
          ssd_AWSStateStoreBucket = '''', ssd_AWSArtifactsBucket = ''''\<rparr>\<rparr>)"
  by (simp_all add: run_defs demo_defs)

subsection \<open>The checkpoint short-circuit\<close>

text \<open>
  C1 (idempotent skip). When the record fetched by \<^verbatim>\<open>GetCluster\<close> has
  \<^verbatim>\<open>StateStoreCredsCheck\<close> true, \<^verbatim>\<open>StateStoreCredentials\<close> returns nil, the only
  call it issues is that \<^verbatim>\<open>GetCluster\<close> (so no provider-adapter call and no field
  update), and the store and the package variables are as before.
\<close>

theorem StateStoreCredentials_skip:
  assumes "fst (GetCluster E (ClusterName clctrl) w) = Inr cl"
    and "cl_StateStoreCredsCheck cl"
  shows "fst (StateStoreCredentials E clctrl w) = ReturnNil
       \<and> snd (StateStoreCredentials E clctrl w) = emit (MdbGetCluster (ClusterName clctrl)) w
       \<and> issued w (snd (StateStoreCredentials E clctrl w)) = [MdbGetCluster (ClusterName clctrl)]
       \<and> filter is_adapter_call (issued w (snd (StateStoreCredentials E clctrl w))) = []
       \<and> filter is_field_update (issued w (snd (StateStoreCredentials E clctrl w))) = []
       \<and> mdb (snd (StateStoreCredentials E clctrl w)) = mdb w"
proof -
  from GetCluster_Inr [OF assms(1)] assms(2)
  have run: "StateStoreCredentials E clctrl w = (ReturnNil, emit (MdbGetCluster (ClusterName clctrl)) w)"
    by (simp add: StateStoreCredentials_def)
  show ?thesis
    by (simp add: run)
qed

theorem StateStoreCredentials_skip_witness:
  "fst (GetCluster demo_env (ClusterName (demo_clctrl ''civo''))
          (demo_world (fresh_Cluster\<lparr>cl_StateStoreCredsCheck := True\<rparr>)))
     = Inr (fresh_Cluster\<lparr>cl_StateStoreCredsCheck := True\<rparr>)
   \<and> cl_StateStoreCredsCheck (fresh_Cluster\<lparr>cl_StateStoreCredsCheck := True\<rparr>)
   \<and> fst (StateStoreCredentials demo_env (demo_clctrl ''civo'')
            (demo_world (fresh_Cluster\<lparr>cl_StateStoreCredsCheck := True\<rparr>))) = ReturnNil
   \<and> filter is_adapter_call
        (issued (demo_world (fresh_Cluster\<lparr>cl_StateStoreCredsCheck := True\<rparr>))
           (snd (StateStoreCredentials demo_env (demo_clctrl ''civo'')
                   (demo_world (fresh_Cluster\<lparr>cl_StateStoreCredsCheck := True\<rparr>))))) = []
   \<and> filter is_field_update
        (issued (demo_world (fresh_Cluster\<lparr>cl_StateStoreCredsCheck := True\<rparr>))
           (snd (StateStoreCredentials demo_env (demo_clctrl ''civo'')
                   (demo_world (fresh_Cluster\<lparr>cl_StateStoreCredsCheck := True\<rparr>))))) = []"
proof -
  have get: "fst (GetCluster demo_env (ClusterName (demo_clctrl ''civo''))
                    (demo_world (fresh_Cluster\<lparr>cl_StateStoreCredsCheck := True\<rparr>)))
               = Inr (fresh_Cluster\<lparr>cl_StateStoreCredsCheck := True\<rparr>)"
    by (simp add: GetCluster_def demo_env_def demo_clctrl_def demo_world_def)
  have chk: "cl_StateStoreCredsCheck (fresh_Cluster\<lparr>cl_StateStoreCredsCheck := True\<rparr>)"
    by simp
  from StateStoreCredentials_skip [OF get chk] get chk show ?thesis
    by simp
qed

subsection \<open>Order of the persisted writes\<close>

text \<open>
  C2 (checkpoint ordering). In a run that found the checkpoint false and returned nil,
  the calls of \<^verbatim>\<open>UpdateCluster\<close> the run issued are, in order: for
  \<^verbatim>\<open>StateStoreCredentials\<close>, writes of \<^verbatim>\<open>state_store_details\<close> only, then the write
  of \<^verbatim>\<open>state_store_credentials\<close>, then the write of \<^verbatim>\<open>state_store_creds_check\<close> to
  true, and nothing after it; for \<^verbatim>\<open>StateStoreCreate\<close> on civo (the only provider it
  provisions for), the write of \<^verbatim>\<open>state_store_details\<close>, then the write of
  \<^verbatim>\<open>state_store_create_check\<close> to true. The store between two calls is the store after
  a prefix of that list, so a prefix that holds the checkpoint write holds every data
  write of the run.
\<close>

theorem checkpoint_write_last:
  "(fst (GetCluster E (ClusterName c) w) = Inr cl \<and> \<not> cl_StateStoreCredsCheck cl
      \<and> fst (StateStoreCredentials E c w) = ReturnNil \<longrightarrow>
      (\<exists>before d.
         filter is_field_update (issued w (snd (StateStoreCredentials E c w))) =
           before @ [MdbUpdateCluster (ClusterName c) (state_store_credentials d),
                     MdbUpdateCluster (ClusterName c) (state_store_creds_check True)]
         \<and> (\<forall>e\<in>set before. is_details_write e)))
   \<and> (fst (GetCluster E (ClusterName c) w) = Inr cl \<and> \<not> cl_StateStoreCreateCheck cl
      \<and> CloudProvider c = ''civo'' \<and> fst (StateStoreCreate E c w) = ReturnNil \<longrightarrow>
      (\<exists>d.
         filter is_field_update (issued w (snd (StateStoreCreate E c w))) =
           [MdbUpdateCluster (ClusterName c) (state_store_details d),
            MdbUpdateCluster (ClusterName c) (state_store_create_check True)]))"
proof (intro conjI impI)
  assume a: "fst (GetCluster E (ClusterName c) w) = Inr cl \<and> \<not> cl_StateStoreCredsCheck cl
      \<and> fst (StateStoreCredentials E c w) = ReturnNil"
  from StateStoreCredentials_success [of E c w cl] a obtain evs d where
    tr: "trace (snd (StateStoreCredentials E c w)) =
           trace w @ [MdbGetCluster (ClusterName c)] @ evs @
             [MdbUpdateCluster (ClusterName c) (state_store_credentials d),
              MdbUpdateCluster (ClusterName c) (state_store_creds_check True),
              LogInfo (CloudProvider c @ '' object storage credentials created and set'')]"
    and dw: "\<forall>e\<in>set evs. is_field_update e \<longrightarrow> is_details_write e"
    by blast
  have "filter is_field_update (issued w (snd (StateStoreCredentials E c w))) =
          filter is_field_update evs @
            [MdbUpdateCluster (ClusterName c) (state_store_credentials d),
             MdbUpdateCluster (ClusterName c) (state_store_creds_check True)]"
    by (simp add: issued_append [OF tr])
  moreover from dw have "\<forall>e\<in>set (filter is_field_update evs). is_details_write e"
    by simp
  ultimately show "\<exists>before d.
         filter is_field_update (issued w (snd (StateStoreCredentials E c w))) =
           before @ [MdbUpdateCluster (ClusterName c) (state_store_credentials d),
                     MdbUpdateCluster (ClusterName c) (state_store_creds_check True)]
         \<and> (\<forall>e\<in>set before. is_details_write e)"
    by blast
next
  assume a: "fst (GetCluster E (ClusterName c) w) = Inr cl \<and> \<not> cl_StateStoreCreateCheck cl
      \<and> CloudProvider c = ''civo'' \<and> fst (StateStoreCreate E c w) = ReturnNil"
  then have g: "GetCluster E (ClusterName c) w = (Inr cl, emit (MdbGetCluster (ClusterName c)) w)"
    using GetCluster_Inr by blast
  from a have chk: "\<not> cl_StateStoreCreateCheck cl" and civo: "CloudProvider c = ''civo''"
    and ok: "fst (StateStoreCreate E c w) = ReturnNil"
    by simp_all
  from ok show "\<exists>d.
         filter is_field_update (issued w (snd (StateStoreCreate E c w))) =
           [MdbUpdateCluster (ClusterName c) (state_store_details d),
            MdbUpdateCluster (ClusterName c) (state_store_create_check True)]"
    by (simp add: StateStoreCreate_def g chk civo adapter_defs split_beta Let_def issued_def
          split: sum.splits option.splits)
qed

theorem checkpoint_write_last_witness:
  "fst (GetCluster demo_env (ClusterName (demo_clctrl ''civo'')) (demo_world fresh_Cluster)) = Inr fresh_Cluster
   \<and> \<not> cl_StateStoreCredsCheck fresh_Cluster
   \<and> \<not> cl_StateStoreCreateCheck fresh_Cluster
   \<and> CloudProvider (demo_clctrl ''civo'') = ''civo''
   \<and> fst (StateStoreCredentials demo_env (demo_clctrl ''civo'') (demo_world fresh_Cluster)) = ReturnNil
   \<and> fst (StateStoreCreate demo_env (demo_clctrl ''civo'') (demo_world fresh_Cluster)) = ReturnNil
   \<and> filter is_field_update (issued (demo_world fresh_Cluster)
        (snd (StateStoreCredentials demo_env (demo_clctrl ''civo'') (demo_world fresh_Cluster)))) =
       [MdbUpdateCluster ''demo'' (state_store_credentials
          \<lparr>ssc_AccessKeyID = ''AK1'', ssc_SecretAccessKey = ''SK1'',
           ssc_Name = ''k1-state-store-demo'', ssc_ID = ''id-1''\<rparr>),
        MdbUpdateCluster ''demo'' (state_store_creds_check True)]
   \<and> filter is_field_update (issued (demo_world fresh_Cluster)
        (snd (StateStoreCreate demo_env (demo_clctrl ''civo'') (demo_world fresh_Cluster)))) =
       [MdbUpdateCluster ''demo'' (state_store_details
          \<lparr>ssd_Name = ''k1-state-store-demo'', ssd_ID = ''bucket-1'', ssd_Hostname = '''',
           ssd_AWSStateStoreBucket = '''', ssd_AWSArtifactsBucket = ''''\<rparr>),
        MdbUpdateCluster ''demo'' (state_store_create_check True)]"
proof -
  have g: "fst (GetCluster demo_env (ClusterName (demo_clctrl ''civo'')) (demo_world fresh_Cluster)) = Inr fresh_Cluster"
    by (simp add: demo_GetCluster)
  have k: "\<not> cl_StateStoreCredsCheck fresh_Cluster" "\<not> cl_StateStoreCreateCheck fresh_Cluster"
    by (simp_all add: fresh_Cluster_def)
  have p: "CloudProvider (demo_clctrl ''civo'') = ''civo''"
    by simp
  from checkpoint_write_last [of demo_env "demo_clctrl ''civo''" "demo_world fresh_Cluster" fresh_Cluster]
    g k p demo_civo_credentials(1) demo_civo_create(1)
  show ?thesis
    by (simp add: demo_civo_credentials(2) demo_civo_create(2))
qed

subsection \<open>Checkpoint flags are only ever set\<close>

text \<open>
  C8 (monotone flags). In every run of \<^verbatim>\<open>StateStoreCredentials\<close> and of
  \<^verbatim>\<open>StateStoreCreate\<close>, whatever the collaborators answer, each call issued either
  writes no checkpoint flag or writes true to it; and for every cluster name, the stored
  record is neither created nor deleted and a flag that was true before the run is true
  after it.
\<close>

theorem checkpoint_flags_monotone:
  "(\<forall>e\<in>set (issued w (snd (StateStoreCredentials E c w))).
       flag_written e = None \<or> flag_written e = Some True)
   \<and> (\<forall>e\<in>set (issued w (snd (StateStoreCreate E c w))).
       flag_written e = None \<or> flag_written e = Some True)
   \<and> (\<forall>name. flags_monotone (flags_of (mdb w) name)
                 (flags_of (mdb (snd (StateStoreCredentials E c w))) name))
   \<and> (\<forall>name. flags_monotone (flags_of (mdb w) name)
                 (flags_of (mdb (snd (StateStoreCreate E c w))) name))"
proof -
  from StateStoreCredentials_effect [of E c w] obtain evs where
    "trace (snd (StateStoreCredentials E c w)) = trace w @ evs"
    "\<forall>e\<in>set evs. flag_written e = None \<or> flag_written e = Some True"
    by blast
  then have 1: "\<forall>e\<in>set (issued w (snd (StateStoreCredentials E c w))).
       flag_written e = None \<or> flag_written e = Some True"
    by simp
  from StateStoreCreate_effect [of E c w] obtain evs' where
    "trace (snd (StateStoreCreate E c w)) = trace w @ evs'"
    "\<forall>e\<in>set evs'. flag_written e = None \<or> flag_written e = Some True"
    by blast
  then have 2: "\<forall>e\<in>set (issued w (snd (StateStoreCreate E c w))).
       flag_written e = None \<or> flag_written e = Some True"
    by simp
  from 1 2 StateStoreCredentials_flags StateStoreCreate_flags show ?thesis
    by blast
qed

theorem checkpoint_flags_monotone_witness:
  "MdbUpdateCluster ''demo'' (state_store_creds_check True)
     \<in> set (issued (demo_world fresh_Cluster)
              (snd (StateStoreCredentials demo_env (demo_clctrl ''civo'') (demo_world fresh_Cluster))))
   \<and> flag_written (MdbUpdateCluster ''demo'' (state_store_creds_check True)) = Some True
   \<and> MdbUpdateCluster ''demo'' (state_store_create_check True)
     \<in> set (issued (demo_world fresh_Cluster)
              (snd (StateStoreCreate demo_env (demo_clctrl ''civo'') (demo_world fresh_Cluster))))
   \<and> flags_of (mdb (demo_world fresh_Cluster)) ''demo'' = Some (False, False)
   \<and> flags_of (mdb (snd (StateStoreCredentials demo_env (demo_clctrl ''civo'') (demo_world fresh_Cluster)))) ''demo''
       = Some (True, False)
   \<and> flags_of (mdb (snd (StateStoreCreate demo_env (demo_clctrl ''civo'') (demo_world fresh_Cluster)))) ''demo''
       = Some (False, True)
   \<and> flags_monotone (flags_of (mdb (demo_world fresh_Cluster)) ''demo'')
       (flags_of (mdb (snd (StateStoreCredentials demo_env (demo_clctrl ''civo'') (demo_world fresh_Cluster)))) ''demo'')
   \<and> flags_monotone (flags_of (mdb (demo_world fresh_Cluster)) ''demo'')
       (flags_of (mdb (snd (StateStoreCreate demo_env (demo_clctrl ''civo'') (demo_world fresh_Cluster)))) ''demo'')"
  using checkpoint_flags_monotone [of "demo_world fresh_Cluster" demo_env "demo_clctrl ''civo''"]
  by (simp add: demo_civo_credentials demo_civo_create flags_of_def)
     (simp add: demo_defs)


subsection \<open>StateStoreCreate provisions for civo only\<close>

text \<open>
  C9. When \<^verbatim>\<open>GetCluster\<close> returns a record and the provider is anything but
  \<^verbatim>\<open>civo\<close> (aws, digitalocean, vultr, or any other string), \<^verbatim>\<open>StateStoreCreate\<close>
  returns nil and its only call is that \<^verbatim>\<open>GetCluster\<close>: no provider-adapter call, no
  \<^verbatim>\<open>UpdateCluster\<close>, and so no write of \<^verbatim>\<open>state_store_create_check\<close>; the store is
  as before.
\<close>

theorem StateStoreCreate_other_providers:
  assumes "fst (GetCluster E (ClusterName c) w) = Inr cl"
    and "CloudProvider c \<noteq> ''civo''"
  shows "fst (StateStoreCreate E c w) = ReturnNil
       \<and> snd (StateStoreCreate E c w) = emit (MdbGetCluster (ClusterName c)) w
       \<and> issued w (snd (StateStoreCreate E c w)) = [MdbGetCluster (ClusterName c)]
       \<and> filter is_adapter_call (issued w (snd (StateStoreCreate E c w))) = []
       \<and> filter is_field_update (issued w (snd (StateStoreCreate E c w))) = []
       \<and> MdbUpdateCluster (ClusterName c) (state_store_create_check True)
           \<notin> set (issued w (snd (StateStoreCreate E c w)))
       \<and> mdb (snd (StateStoreCreate E c w)) = mdb w"
proof -
  from GetCluster_Inr [OF assms(1)] assms(2)
  have run: "StateStoreCreate E c w = (ReturnNil, emit (MdbGetCluster (ClusterName c)) w)"
    by (simp add: StateStoreCreate_def)
  show ?thesis
    by (simp add: run)
qed

theorem StateStoreCreate_other_providers_witness:
  "fst (GetCluster demo_env (ClusterName (demo_clctrl ''aws'')) (demo_world fresh_Cluster)) = Inr fresh_Cluster
   \<and> CloudProvider (demo_clctrl ''aws'') \<noteq> ''civo''
   \<and> fst (StateStoreCreate demo_env (demo_clctrl ''aws'') (demo_world fresh_Cluster)) = ReturnNil
   \<and> issued (demo_world fresh_Cluster)
        (snd (StateStoreCreate demo_env (demo_clctrl ''aws'') (demo_world fresh_Cluster)))
       = [MdbGetCluster ''demo'']
   \<and> mdb (snd (StateStoreCreate demo_env (demo_clctrl ''aws'') (demo_world fresh_Cluster)))
       = mdb (demo_world fresh_Cluster)"
proof -
  have g: "fst (GetCluster demo_env (ClusterName (demo_clctrl ''aws'')) (demo_world fresh_Cluster)) = Inr fresh_Cluster"
    by (simp add: demo_GetCluster)
  have p: "CloudProvider (demo_clctrl ''aws'') \<noteq> ''civo''"
    by simp
  from StateStoreCreate_other_providers [OF g p] g
  show ?thesis
    by simp
qed

subsection \<open>The digitalocean endpoint\<close>

text \<open>
  C10. With provider \<^verbatim>\<open>digitalocean\<close>, every \<^verbatim>\<open>CreateSpaceBucket\<close> call of
  \<^verbatim>\<open>StateStoreCredentials\<close> carries the endpoint \<^verbatim>\<open>nyc3.digitaloceanspaces.com\<close>, every
  \<^verbatim>\<open>state_store_details\<close> it writes has that string as \<^verbatim>\<open>Hostname\<close>, after a
  successful provisioning run the stored record has it, and the whole run is the same
  for every value of \<^verbatim>\<open>CloudRegion\<close>.
\<close>

theorem digitalocean_endpoint_fixed:
  assumes "CloudProvider c = ''digitalocean''"
  shows "(\<forall>e\<in>set (issued w (snd (StateStoreCredentials E c w))).
            (\<forall>creds b. e = DigitaloceanCreateSpaceBucket creds b \<longrightarrow>
                do_Endpoint creds = ''nyc3.digitaloceanspaces.com'')
          \<and> (\<forall>n d. e = MdbUpdateCluster n (state_store_details d) \<longrightarrow>
                ssd_Hostname d = ''nyc3.digitaloceanspaces.com''))
       \<and> (fst (GetCluster E (ClusterName c) w) = Inr cl \<and> \<not> cl_StateStoreCredsCheck cl
            \<and> fst (StateStoreCredentials E c w) = ReturnNil \<longrightarrow>
          map_option (\<lambda>cl'. ssd_Hostname (cl_StateStoreDetails cl'))
             (mdb (snd (StateStoreCredentials E c w)) (ClusterName c))
            = Some ''nyc3.digitaloceanspaces.com'')
       \<and> StateStoreCredentials E (c\<lparr>CloudRegion := r\<rparr>) w = StateStoreCredentials E c w"
proof (intro conjI impI ballI)
  fix e
  assume e: "e \<in> set (issued w (snd (StateStoreCredentials E c w)))"
  let ?w1 = "emit (MdbGetCluster (ClusterName c)) w"
  have sw: "StateStoreCredentials_switch E c ?w1 = StateStoreCredentials_digitalocean E c ?w1"
    using assms by (simp add: StateStoreCredentials_switch_def)
  from StateStoreCredentials_events [OF e]
  show "(\<forall>creds b. e = DigitaloceanCreateSpaceBucket creds b \<longrightarrow>
                do_Endpoint creds = ''nyc3.digitaloceanspaces.com'')"
    unfolding sw using digitalocean_branch_events [of e ?w1 E c] by auto
  from StateStoreCredentials_events [OF e]
  show "(\<forall>n d. e = MdbUpdateCluster n (state_store_details d) \<longrightarrow>
                ssd_Hostname d = ''nyc3.digitaloceanspaces.com'')"
    unfolding sw using digitalocean_branch_events [of e ?w1 E c] by auto
next
  assume a: "fst (GetCluster E (ClusterName c) w) = Inr cl \<and> \<not> cl_StateStoreCredsCheck cl
            \<and> fst (StateStoreCredentials E c w) = ReturnNil"
  then have g: "GetCluster E (ClusterName c) w = (Inr cl, emit (MdbGetCluster (ClusterName c)) w)"
    and m: "mdb w (ClusterName c) = Some cl"
    using GetCluster_Inr by blast+
  from a have chk: "\<not> cl_StateStoreCredsCheck cl" and ok: "fst (StateStoreCredentials E c w) = ReturnNil"
    by simp_all
  from ok show "map_option (\<lambda>cl'. ssd_Hostname (cl_StateStoreDetails cl'))
             (mdb (snd (StateStoreCredentials E c w)) (ClusterName c))
            = Some ''nyc3.digitaloceanspaces.com''"
    by (simp add: StateStoreCredentials_def StateStoreCredentials_switch_def assms g chk m
          StateStoreCredentials_digitalocean_def adapter_defs split_beta Let_def
          mdb_UpdateCluster apply_update_def
          split: sum.splits option.splits)
next
  have sw: "\<And>w1. StateStoreCredentials_switch E (c\<lparr>CloudRegion := r\<rparr>) w1
                 = StateStoreCredentials_switch E c w1"
    using assms
    by (simp add: StateStoreCredentials_switch_def StateStoreCredentials_digitalocean_def
          Let_def split_beta split: option.splits)
  show "StateStoreCredentials E (c\<lparr>CloudRegion := r\<rparr>) w = StateStoreCredentials E c w"
    by (simp add: StateStoreCredentials_def sw split_beta cong: sum.case_cong option.case_cong if_cong)
qed


theorem digitalocean_endpoint_fixed_witness:
  "CloudProvider (demo_clctrl ''digitalocean'') = ''digitalocean''
   \<and> CloudRegion (demo_clctrl ''digitalocean'') = ''nyc1''
   \<and> fst (GetCluster demo_env (ClusterName (demo_clctrl ''digitalocean'')) (demo_world fresh_Cluster))
       = Inr fresh_Cluster
   \<and> \<not> cl_StateStoreCredsCheck fresh_Cluster
   \<and> fst (StateStoreCredentials demo_env (demo_clctrl ''digitalocean'') (demo_world fresh_Cluster)) = ReturnNil
   \<and> DigitaloceanCreateSpaceBucket
        \<lparr>do_AccessKey = ''from-env'', do_SecretAccessKey = ''from-env'',
         do_Endpoint = ''nyc3.digitaloceanspaces.com''\<rparr> ''k1-state-store-demo''
       \<in> set (issued (demo_world fresh_Cluster)
            (snd (StateStoreCredentials demo_env (demo_clctrl ''digitalocean'') (demo_world fresh_Cluster))))
   \<and> map_option (\<lambda>cl'. ssd_Hostname (cl_StateStoreDetails cl'))
        (mdb (snd (StateStoreCredentials demo_env (demo_clctrl ''digitalocean'') (demo_world fresh_Cluster)))
           (ClusterName (demo_clctrl ''digitalocean'')))
       = Some ''nyc3.digitaloceanspaces.com''
   \<and> StateStoreCredentials demo_env ((demo_clctrl ''digitalocean'')\<lparr>CloudRegion := ''sfo3''\<rparr>)
         (demo_world fresh_Cluster)
       = StateStoreCredentials demo_env (demo_clctrl ''digitalocean'') (demo_world fresh_Cluster)"
proof -
  have p: "CloudProvider (demo_clctrl ''digitalocean'') = ''digitalocean''"
    by simp
  have g: "fst (GetCluster demo_env (ClusterName (demo_clctrl ''digitalocean'')) (demo_world fresh_Cluster))
       = Inr fresh_Cluster"
    by (simp add: demo_GetCluster)
  have f: "\<not> cl_StateStoreCredsCheck fresh_Cluster" "CloudRegion (demo_clctrl ''digitalocean'') = ''nyc1''"
    by (simp_all add: fresh_Cluster_def demo_clctrl_def)
  from digitalocean_endpoint_fixed
         [OF p, of "demo_world fresh_Cluster" demo_env fresh_Cluster "''sfo3''"]
    g f demo_digitalocean_credentials
  show ?thesis
    by simp
qed


subsection \<open>Validation of the civo credentials\<close>

text \<open>
  C4 (validation field order). The message the validator builds is the one the
  specification describes: the fields are tried in the order AccessKeyID, ID, Name,
  SecretAccessKeyID, the message names the first one that is empty and asks to retry the
  cluster creation, and it is empty when none is. The message holds no percent sign, so
  \<^verbatim>\<open>fmt.Errorf\<close> renders it unchanged. A credential object with AccessKeyID and ID
  present and Name empty gives the message naming Name. When the compensating delete
  succeeds, that message is the error \<^verbatim>\<open>StateStoreCredentials\<close> returns.
\<close>

theorem civo_validation_first_missing_field:
  "civoCredsFailureMessage creds =
     (case spec_first_missing_field creds of
        None \<Rightarrow> ''''
      | Some field \<Rightarrow> spec_failure_message field)
   \<and> CHR ''%'' \<notin> set (civoCredsFailureMessage creds)
   \<and> (civo_AccessKeyID creds \<noteq> '''' \<and> civo_ID creds \<noteq> '''' \<and> civo_Name creds = '''' \<longrightarrow>
        civoCredsFailureMessage creds =
          ''when retrieving civo access credentials, Name was empty - please retry your cluster creation'')
   \<and> (CloudProvider c = ''civo'' \<and> fst (GetCluster E (ClusterName c) w) = Inr cl
        \<and> \<not> cl_StateStoreCredsCheck cl
        \<and> spec_first_missing_field (civo_creds_returned E c w) = Some field
        \<and> civo_DeleteAccessCredentials E (civo_trace_before_delete E c w)
              (KubefirstStateStoreBucketName c) (CloudRegion c) = None
      \<longrightarrow> fst (StateStoreCredentials E c w) = ReturnErr (Errorf (spec_failure_message field) []))"
proof (intro conjI impI)
  show "civoCredsFailureMessage creds =
     (case spec_first_missing_field creds of
        None \<Rightarrow> ''''
      | Some field \<Rightarrow> spec_failure_message field)"
    by (rule civoCredsFailureMessage_spec)
  show "CHR ''%'' \<notin> set (civoCredsFailureMessage creds)"
    by (simp add: civoCredsFailureMessage_def)
next
  assume "civo_AccessKeyID creds \<noteq> '''' \<and> civo_ID creds \<noteq> '''' \<and> civo_Name creds = ''''"
  then show "civoCredsFailureMessage creds =
          ''when retrieving civo access credentials, Name was empty - please retry your cluster creation''"
    by (simp add: civoCredsFailureMessage_def)
next
  assume a: "CloudProvider c = ''civo'' \<and> fst (GetCluster E (ClusterName c) w) = Inr cl
        \<and> \<not> cl_StateStoreCredsCheck cl
        \<and> spec_first_missing_field (civo_creds_returned E c w) = Some field
        \<and> civo_DeleteAccessCredentials E (civo_trace_before_delete E c w)
              (KubefirstStateStoreBucketName c) (CloudRegion c) = None"
  then have msg: "civoCredsFailureMessage (civo_creds_returned E c w) = spec_failure_message field"
    by (simp add: civoCredsFailureMessage_spec)
  then have bad: "civoCredsFailureMessage (civo_creds_returned E c w) \<noteq> ''''"
    by (simp add: spec_failure_message_def)
  from a civo_validation_failure(1) [OF _ _ _ bad, of cl] msg
  show "fst (StateStoreCredentials E c w) = ReturnErr (Errorf (spec_failure_message field) [])"
    by simp
qed

theorem civo_validation_first_missing_field_witness:
  "CloudProvider (demo_clctrl ''civo'') = ''civo''
   \<and> fst (GetCluster civo_nameless_env (ClusterName (demo_clctrl ''civo'')) (demo_world fresh_Cluster))
       = Inr fresh_Cluster
   \<and> \<not> cl_StateStoreCredsCheck fresh_Cluster
   \<and> spec_first_missing_field
        (civo_creds_returned civo_nameless_env (demo_clctrl ''civo'') (demo_world fresh_Cluster))
       = Some ''Name''
   \<and> civo_DeleteAccessCredentials civo_nameless_env
        (civo_trace_before_delete civo_nameless_env (demo_clctrl ''civo'') (demo_world fresh_Cluster))
        (KubefirstStateStoreBucketName (demo_clctrl ''civo'')) (CloudRegion (demo_clctrl ''civo'')) = None
   \<and> fst (StateStoreCredentials civo_nameless_env (demo_clctrl ''civo'') (demo_world fresh_Cluster))
       = ReturnErr (Errorf
           ''when retrieving civo access credentials, Name was empty - please retry your cluster creation'' [])"
proof -
  have h: "CloudProvider (demo_clctrl ''civo'') = ''civo''"
    "fst (GetCluster civo_nameless_env (ClusterName (demo_clctrl ''civo'')) (demo_world fresh_Cluster))
       = Inr fresh_Cluster"
    "\<not> cl_StateStoreCredsCheck fresh_Cluster"
    "spec_first_missing_field
        (civo_creds_returned civo_nameless_env (demo_clctrl ''civo'') (demo_world fresh_Cluster))
       = Some ''Name''"
    "civo_DeleteAccessCredentials civo_nameless_env
        (civo_trace_before_delete civo_nameless_env (demo_clctrl ''civo'') (demo_world fresh_Cluster))
        (KubefirstStateStoreBucketName (demo_clctrl ''civo'')) (CloudRegion (demo_clctrl ''civo'')) = None"
    by (simp_all add: civo_nameless_facts spec_first_missing_field_def spec_required_fields_def)
       (simp_all add: fresh_Cluster_def civo_nameless_env_def demo_env_def)
  from civo_validation_first_missing_field
         [of _ "demo_clctrl ''civo''" civo_nameless_env "demo_world fresh_Cluster" fresh_Cluster "''Name''"]
    h
  show ?thesis
    by (simp add: spec_failure_message_def)
qed

subsection \<open>Compensation after a failed validation\<close>

text \<open>
  C5 (compensation). When the validation of the civo credentials fails, the run is the
  \<^verbatim>\<open>GetCluster\<close> read, the \<^verbatim>\<open>GetAccessCredentials\<close> call, the log line of its error
  if it returned one, and then one call of \<^verbatim>\<open>DeleteAccessCredentials\<close> for the same
  bucket name and region, which is the last call and the only delete; nothing is written
  to the store. If that delete returns an error, this error is what
  \<^verbatim>\<open>StateStoreCredentials\<close> returns; if it returns nil, the validation message is.
\<close>

theorem civo_compensation:
  assumes "CloudProvider c = ''civo''"
    and "fst (GetCluster E (ClusterName c) w) = Inr cl"
    and "\<not> cl_StateStoreCredsCheck cl"
    and "civoCredsFailureMessage (civo_creds_returned E c w) \<noteq> ''''"
  shows "trace (snd (StateStoreCredentials E c w)) =
           civo_trace_before_delete E c w @
           [CivoDeleteAccessCredentials (KubefirstStateStoreBucketName c) (CloudRegion c)]
       \<and> length (filter is_DeleteAccessCredentials (issued w (snd (StateStoreCredentials E c w)))) = 1
       \<and> filter is_field_update (issued w (snd (StateStoreCredentials E c w))) = []
       \<and> mdb (snd (StateStoreCredentials E c w)) = mdb w
       \<and> (\<forall>derr. civo_DeleteAccessCredentials E (civo_trace_before_delete E c w)
                     (KubefirstStateStoreBucketName c) (CloudRegion c) = Some derr
             \<longrightarrow> fst (StateStoreCredentials E c w) = ReturnErr (ErrorValue derr))
       \<and> (civo_DeleteAccessCredentials E (civo_trace_before_delete E c w)
              (KubefirstStateStoreBucketName c) (CloudRegion c) = None
             \<longrightarrow> fst (StateStoreCredentials E c w) =
                   ReturnErr (Errorf (civoCredsFailureMessage (civo_creds_returned E c w)) []))"
proof -
  note f = civo_validation_failure [OF assms]
  have i: "issued w (snd (StateStoreCredentials E c w)) =
             drop (length (trace w)) (civo_trace_before_delete E c w) @
             [CivoDeleteAccessCredentials (KubefirstStateStoreBucketName c) (CloudRegion c)]"
    by (simp add: issued_def f(2) civo_trace_before_delete_def)
  have "length (filter is_DeleteAccessCredentials (issued w (snd (StateStoreCredentials E c w)))) = 1"
    and "filter is_field_update (issued w (snd (StateStoreCredentials E c w))) = []"
    unfolding i by (simp_all add: civo_trace_before_delete_def split: option.splits)
  with f show ?thesis
    by simp
qed

theorem civo_compensation_witness:
  "CloudProvider (demo_clctrl ''civo'') = ''civo''
   \<and> fst (GetCluster civo_delete_failing_env (ClusterName (demo_clctrl ''civo'')) (demo_world fresh_Cluster))
       = Inr fresh_Cluster
   \<and> fst (GetCluster civo_nameless_env (ClusterName (demo_clctrl ''civo'')) (demo_world fresh_Cluster))
       = Inr fresh_Cluster
   \<and> \<not> cl_StateStoreCredsCheck fresh_Cluster
   \<and> civoCredsFailureMessage
        (civo_creds_returned civo_delete_failing_env (demo_clctrl ''civo'') (demo_world fresh_Cluster)) =
       ''when retrieving civo access credentials, Name was empty - please retry your cluster creation''
   \<and> civoCredsFailureMessage
        (civo_creds_returned civo_nameless_env (demo_clctrl ''civo'') (demo_world fresh_Cluster)) =
       ''when retrieving civo access credentials, Name was empty - please retry your cluster creation''
   \<and> trace (snd (StateStoreCredentials civo_delete_failing_env (demo_clctrl ''civo'') (demo_world fresh_Cluster))) =
       [MdbGetCluster ''demo'', CivoGetAccessCredentials ''k1-state-store-demo'' ''nyc1'',
        CivoDeleteAccessCredentials ''k1-state-store-demo'' ''nyc1'']
   \<and> fst (StateStoreCredentials civo_delete_failing_env (demo_clctrl ''civo'') (demo_world fresh_Cluster))
       = ReturnErr (ErrorValue ''delete failed'')
   \<and> fst (StateStoreCredentials civo_nameless_env (demo_clctrl ''civo'') (demo_world fresh_Cluster))
       = ReturnErr (Errorf
           ''when retrieving civo access credentials, Name was empty - please retry your cluster creation'' [])"
proof -
  have m: "civoCredsFailureMessage
        (civo_creds_returned civo_delete_failing_env (demo_clctrl ''civo'') (demo_world fresh_Cluster)) =
       ''when retrieving civo access credentials, Name was empty - please retry your cluster creation''"
    "civoCredsFailureMessage
        (civo_creds_returned civo_nameless_env (demo_clctrl ''civo'') (demo_world fresh_Cluster)) =
       ''when retrieving civo access credentials, Name was empty - please retry your cluster creation''"
    by (simp_all add: civo_nameless_facts civo_delete_failing_facts civoCredsFailureMessage_def)
  have g: "fst (GetCluster civo_delete_failing_env (ClusterName (demo_clctrl ''civo'')) (demo_world fresh_Cluster))
       = Inr fresh_Cluster"
    "fst (GetCluster civo_nameless_env (ClusterName (demo_clctrl ''civo'')) (demo_world fresh_Cluster))
       = Inr fresh_Cluster"
    by (simp_all add: civo_nameless_facts civo_delete_failing_facts)
  have p: "CloudProvider (demo_clctrl ''civo'') = ''civo''" and k: "\<not> cl_StateStoreCredsCheck fresh_Cluster"
    by (simp_all add: fresh_Cluster_def)
  have b: "civoCredsFailureMessage
        (civo_creds_returned civo_delete_failing_env (demo_clctrl ''civo'') (demo_world fresh_Cluster)) \<noteq> ''''"
    "civoCredsFailureMessage
        (civo_creds_returned civo_nameless_env (demo_clctrl ''civo'') (demo_world fresh_Cluster)) \<noteq> ''''"
    by (simp_all add: m)
  have d: "civo_DeleteAccessCredentials civo_delete_failing_env
             (civo_trace_before_delete civo_delete_failing_env (demo_clctrl ''civo'') (demo_world fresh_Cluster))
             (KubefirstStateStoreBucketName (demo_clctrl ''civo'')) (CloudRegion (demo_clctrl ''civo''))
            = Some ''delete failed''"
    "civo_DeleteAccessCredentials civo_nameless_env
             (civo_trace_before_delete civo_nameless_env (demo_clctrl ''civo'') (demo_world fresh_Cluster))
             (KubefirstStateStoreBucketName (demo_clctrl ''civo'')) (CloudRegion (demo_clctrl ''civo''))
            = None"
    by (simp_all add: civo_delete_failing_env_def civo_nameless_env_def demo_env_def)
  from civo_compensation [OF p g(1) k b(1)] civo_compensation [OF p g(2) k b(2)] d m g p k
  show ?thesis
    by (simp add: civo_delete_failing_facts)
qed


subsection \<open>StateStoreCreate and the stored access key\<close>

text \<open>
  C7, as claimed (fail fast on empty credentials), does not hold. For the fresh civo
  record, whose stored \<^verbatim>\<open>AccessKeyID\<close> is empty and whose create checkpoint is false,
  \<^verbatim>\<open>StateStoreCreate\<close> calls \<^verbatim>\<open>CreateStorageBucket\<close> with the empty key, returns nil
  and sets the checkpoint.
\<close>

theorem StateStoreCreate_empty_key_counterexample:
  "CloudProvider (demo_clctrl ''civo'') = ''civo''
   \<and> fst (GetCluster demo_env (ClusterName (demo_clctrl ''civo'')) (demo_world fresh_Cluster))
       = Inr fresh_Cluster
   \<and> \<not> cl_StateStoreCreateCheck fresh_Cluster
   \<and> ssc_AccessKeyID (cl_StateStoreCredentials fresh_Cluster) = ''''
   \<and> fst (StateStoreCreate demo_env (demo_clctrl ''civo'') (demo_world fresh_Cluster)) = ReturnNil
   \<and> CivoCreateStorageBucket '''' ''k1-state-store-demo'' ''nyc1''
       \<in> set (issued (demo_world fresh_Cluster)
                (snd (StateStoreCreate demo_env (demo_clctrl ''civo'') (demo_world fresh_Cluster))))
   \<and> map_option cl_StateStoreCreateCheck
        (mdb (snd (StateStoreCreate demo_env (demo_clctrl ''civo'') (demo_world fresh_Cluster))) ''demo'')
       = Some True"
  by (simp add: demo_civo_create demo_GetCluster)
     (simp add: fresh_Cluster_def zero_StateStoreCredentials_def)

text \<open>
  C7, amended. For a civo record whose create checkpoint is false, \<^verbatim>\<open>StateStoreCreate\<close>
  does not inspect the stored \<^verbatim>\<open>AccessKeyID\<close>: after the \<^verbatim>\<open>GetCluster\<close> read and the
  log line, its first call is \<^verbatim>\<open>CreateStorageBucket\<close> with the stored key, whatever it
  is. If that call returns an error, this error is returned; if it succeeds and no update
  of the record fails, the method returns nil.
\<close>

theorem StateStoreCreate_civo_passes_stored_key:
  assumes "CloudProvider c = ''civo''"
    and "fst (GetCluster E (ClusterName c) w) = Inr cl"
    and "\<not> cl_StateStoreCreateCheck cl"
  shows "take 3 (issued w (snd (StateStoreCreate E c w))) =
           [MdbGetCluster (ClusterName c),
            LogInfo (''access key id '' @ ssc_AccessKeyID (cl_StateStoreCredentials cl)),
            CivoCreateStorageBucket (ssc_AccessKeyID (cl_StateStoreCredentials cl))
              (KubefirstStateStoreBucketName c) (CloudRegion c)]
       \<and> (\<forall>err. civo_CreateStorageBucket E
                   (trace w @ [MdbGetCluster (ClusterName c),
                               LogInfo (''access key id '' @ ssc_AccessKeyID (cl_StateStoreCredentials cl))])
                   (ssc_AccessKeyID (cl_StateStoreCredentials cl))
                   (KubefirstStateStoreBucketName c) (CloudRegion c) = Inl err
            \<longrightarrow> fst (StateStoreCreate E c w) = ReturnErr (ErrorValue err))
       \<and> ((\<exists>bucket. civo_CreateStorageBucket E
                   (trace w @ [MdbGetCluster (ClusterName c),
                               LogInfo (''access key id '' @ ssc_AccessKeyID (cl_StateStoreCredentials cl))])
                   (ssc_AccessKeyID (cl_StateStoreCredentials cl))
                   (KubefirstStateStoreBucketName c) (CloudRegion c) = Inr bucket)
            \<and> (\<forall>tr u. mdb_UpdateCluster_error E tr (ClusterName c) u = None)
            \<longrightarrow> fst (StateStoreCreate E c w) = ReturnNil)"
proof -
  from GetCluster_Inr [OF assms(2)]
  have g: "GetCluster E (ClusterName c) w = (Inr cl, emit (MdbGetCluster (ClusterName c)) w)"
    by simp
  show ?thesis
    by (auto simp add: StateStoreCreate_def g assms(1) assms(3) civo_CreateStorageBucket_call_def
          split_beta Let_def issued_def split: sum.splits option.splits)
qed

theorem StateStoreCreate_civo_passes_stored_key_witness:
  "CloudProvider (demo_clctrl ''civo'') = ''civo''
   \<and> fst (GetCluster demo_env (ClusterName (demo_clctrl ''civo'')) (demo_world fresh_Cluster))
       = Inr fresh_Cluster
   \<and> \<not> cl_StateStoreCreateCheck fresh_Cluster
   \<and> ssc_AccessKeyID (cl_StateStoreCredentials fresh_Cluster) = ''''
   \<and> civo_CreateStorageBucket demo_env
        (trace (demo_world fresh_Cluster) @ [MdbGetCluster ''demo'', LogInfo ''access key id ''])
        '''' ''k1-state-store-demo'' ''nyc1''
       = Inr \<lparr>bucket_Name = ''k1-state-store-demo'', bucket_ID = ''bucket-1''\<rparr>
   \<and> take 3 (issued (demo_world fresh_Cluster)
               (snd (StateStoreCreate demo_env (demo_clctrl ''civo'') (demo_world fresh_Cluster)))) =
           [MdbGetCluster ''demo'', LogInfo ''access key id '',
            CivoCreateStorageBucket '''' ''k1-state-store-demo'' ''nyc1'']
   \<and> fst (StateStoreCreate demo_env (demo_clctrl ''civo'') (demo_world fresh_Cluster)) = ReturnNil"
proof -
  have p: "CloudProvider (demo_clctrl ''civo'') = ''civo''"
    by simp
  have g: "fst (GetCluster demo_env (ClusterName (demo_clctrl ''civo'')) (demo_world fresh_Cluster))
       = Inr fresh_Cluster"
    by (simp add: demo_GetCluster)
  have k: "\<not> cl_StateStoreCreateCheck fresh_Cluster"
    "ssc_AccessKeyID (cl_StateStoreCredentials fresh_Cluster) = ''''"
    by (simp_all add: fresh_Cluster_def zero_StateStoreCredentials_def)
  have a: "civo_CreateStorageBucket demo_env
        (trace (demo_world fresh_Cluster) @ [MdbGetCluster ''demo'', LogInfo ''access key id ''])
        '''' ''k1-state-store-demo'' ''nyc1''
       = Inr \<lparr>bucket_Name = ''k1-state-store-demo'', bucket_ID = ''bucket-1''\<rparr>"
    "\<forall>tr u. mdb_UpdateCluster_error demo_env tr ''demo'' u = None"
    by (simp_all add: demo_env_def)
  from StateStoreCreate_civo_passes_stored_key [OF p g k(1)] p g k a
  show ?thesis
    by simp
qed

subsection \<open>What the credentials checkpoint guarantees\<close>

text \<open>
  C6, as claimed (for every provider value the checkpoint implies a validated, non-empty
  bundle), does not hold. With provider \<^verbatim>\<open>gcp\<close>, which no case of the switch matches,
  and with \<^verbatim>\<open>aws\<close>, \<^verbatim>\<open>digitalocean\<close> and \<^verbatim>\<open>vultr\<close>, whose branches validate
  nothing, the run returns nil and stores the checkpoint as true together with a bundle
  whose access key and secret key are empty.
\<close>

theorem creds_check_unvalidated_counterexample:
  "fst (StateStoreCredentials demo_env (demo_clctrl ''gcp'') (demo_world fresh_Cluster)) = ReturnNil
   \<and> trace (snd (StateStoreCredentials demo_env (demo_clctrl ''gcp'') (demo_world fresh_Cluster))) =
       [MdbGetCluster ''demo'',
        MdbUpdateCluster ''demo'' (state_store_credentials
           \<lparr>ssc_AccessKeyID = '''', ssc_SecretAccessKey = '''', ssc_Name = '''', ssc_ID = ''''\<rparr>),
        MdbUpdateCluster ''demo'' (state_store_creds_check True),
        LogInfo ''gcp object storage credentials created and set'']
   \<and> map_option (\<lambda>cl. (cl_StateStoreCredsCheck cl, cl_StateStoreCredentials cl))
        (mdb (snd (StateStoreCredentials demo_env (demo_clctrl ''gcp'') (demo_world fresh_Cluster))) ''demo'')
       = Some (True, \<lparr>ssc_AccessKeyID = '''', ssc_SecretAccessKey = '''', ssc_Name = '''', ssc_ID = ''''\<rparr>)
   \<and> fst (StateStoreCredentials demo_env
          ((demo_clctrl ''aws'')\<lparr>AwsAccessKeyID := '''', AwsSecretAccessKey := ''''\<rparr>)
          (demo_world fresh_Cluster)) = ReturnNil
   \<and> map_option (\<lambda>cl. (cl_StateStoreCredsCheck cl, cl_StateStoreCredentials cl))
        (mdb (snd (StateStoreCredentials demo_env
          ((demo_clctrl ''aws'')\<lparr>AwsAccessKeyID := '''', AwsSecretAccessKey := ''''\<rparr>)
          (demo_world fresh_Cluster))) ''demo'')
       = Some (True, \<lparr>ssc_AccessKeyID = '''', ssc_SecretAccessKey = '''', ssc_Name = '''', ssc_ID = ''''\<rparr>)
   \<and> fst (StateStoreCredentials unvalidated_env (demo_clctrl ''digitalocean'') (demo_world fresh_Cluster))
       = ReturnNil
   \<and> map_option (\<lambda>cl. (cl_StateStoreCredsCheck cl, cl_StateStoreCredentials cl))
        (mdb (snd (StateStoreCredentials unvalidated_env (demo_clctrl ''digitalocean'')
                  (demo_world fresh_Cluster))) ''demo'')
       = Some (True, \<lparr>ssc_AccessKeyID = '''', ssc_SecretAccessKey = '''',
                      ssc_Name = ''k1-state-store-demo'', ssc_ID = ''''\<rparr>)
   \<and> fst (StateStoreCredentials unvalidated_env (demo_clctrl ''vultr'') (demo_world fresh_Cluster))
       = ReturnNil
   \<and> map_option (\<lambda>cl. (cl_StateStoreCredsCheck cl, cl_StateStoreCredentials cl))
        (mdb (snd (StateStoreCredentials unvalidated_env (demo_clctrl ''vultr'')
                  (demo_world fresh_Cluster))) ''demo'')
       = Some (True, \<lparr>ssc_AccessKeyID = '''', ssc_SecretAccessKey = '''', ssc_Name = '''', ssc_ID = ''''\<rparr>)"
  by (simp add: demo_unvalidated_runs)
     (simp add: zero_StateStoreCredentials_def)

text \<open>
  C6, amended. For provider \<^verbatim>\<open>civo\<close>: when a run of \<^verbatim>\<open>StateStoreCredentials\<close> that
  found the checkpoint false leaves it true in the stored record, the stored bundle is
  the one built from the credentials \<^verbatim>\<open>GetAccessCredentials\<close> returned, and its access
  key, secret key, name and id are all non-empty.
\<close>

theorem civo_checkpoint_implies_validated:
  assumes "CloudProvider c = ''civo''"
    and "fst (GetCluster E (ClusterName c) w) = Inr cl"
    and "\<not> cl_StateStoreCredsCheck cl"
    and "mdb (snd (StateStoreCredentials E c w)) (ClusterName c) = Some cl'"
    and "cl_StateStoreCredsCheck cl'"
  shows "cl_StateStoreCredentials cl' =
           \<lparr>ssc_AccessKeyID = civo_AccessKeyID (civo_creds_returned E c w),
            ssc_SecretAccessKey = civo_SecretAccessKeyID (civo_creds_returned E c w),
            ssc_Name = civo_Name (civo_creds_returned E c w),
            ssc_ID = civo_ID (civo_creds_returned E c w)\<rparr>
       \<and> ssc_AccessKeyID (cl_StateStoreCredentials cl') \<noteq> ''''
       \<and> ssc_SecretAccessKey (cl_StateStoreCredentials cl') \<noteq> ''''
       \<and> ssc_Name (cl_StateStoreCredentials cl') \<noteq> ''''
       \<and> ssc_ID (cl_StateStoreCredentials cl') \<noteq> ''''"
proof -
  from GetCluster_Inr [OF assms(2)]
  have g: "GetCluster E (ClusterName c) w = (Inr cl, emit (MdbGetCluster (ClusterName c)) w)"
    and m: "mdb w (ClusterName c) = Some cl"
    by simp_all
  have good: "civoCredsFailureMessage (civo_creds_returned E c w) = ''''"
  proof (rule ccontr)
    assume bad: "civoCredsFailureMessage (civo_creds_returned E c w) \<noteq> ''''"
    from civo_validation_failure(3) [OF assms(1) assms(2) assms(3) bad] m assms(4) assms(5) assms(3)
    show False by simp
  qed
  then have ne: "civo_AccessKeyID (civo_creds_returned E c w) \<noteq> ''''"
    "civo_ID (civo_creds_returned E c w) \<noteq> ''''"
    "civo_Name (civo_creds_returned E c w) \<noteq> ''''"
    "civo_SecretAccessKeyID (civo_creds_returned E c w) \<noteq> ''''"
    by (simp_all add: civoCredsFailureMessage_def split: if_splits)
  have "cl_StateStoreCredentials cl' =
           \<lparr>ssc_AccessKeyID = civo_AccessKeyID (civo_creds_returned E c w),
            ssc_SecretAccessKey = civo_SecretAccessKeyID (civo_creds_returned E c w),
            ssc_Name = civo_Name (civo_creds_returned E c w),
            ssc_ID = civo_ID (civo_creds_returned E c w)\<rparr>"
    using assms(4) assms(5) assms(3) good m
    by (auto simp add: StateStoreCredentials_def StateStoreCredentials_switch_def assms(1) g
          StateStoreCredentials_civo_def adapter_defs split_beta Let_def
          civo_creds_returned_def mdb_UpdateCluster apply_update_def
          split: option.splits if_splits)
  with ne show ?thesis
    by simp
qed


theorem civo_checkpoint_implies_validated_witness:
  "CloudProvider (demo_clctrl ''civo'') = ''civo''
   \<and> fst (GetCluster demo_env (ClusterName (demo_clctrl ''civo'')) (demo_world fresh_Cluster))
       = Inr fresh_Cluster
   \<and> \<not> cl_StateStoreCredsCheck fresh_Cluster
   \<and> mdb (snd (StateStoreCredentials demo_env (demo_clctrl ''civo'') (demo_world fresh_Cluster)))
         (ClusterName (demo_clctrl ''civo'')) =
       Some (fresh_Cluster
         \<lparr>cl_StateStoreCredsCheck := True,
          cl_StateStoreCredentials :=
            \<lparr>ssc_AccessKeyID = ''AK1'', ssc_SecretAccessKey = ''SK1'',
             ssc_Name = ''k1-state-store-demo'', ssc_ID = ''id-1''\<rparr>\<rparr>)
   \<and> cl_StateStoreCredsCheck (fresh_Cluster
         \<lparr>cl_StateStoreCredsCheck := True,
          cl_StateStoreCredentials :=
            \<lparr>ssc_AccessKeyID = ''AK1'', ssc_SecretAccessKey = ''SK1'',
             ssc_Name = ''k1-state-store-demo'', ssc_ID = ''id-1''\<rparr>\<rparr>)
   \<and> civo_creds_returned demo_env (demo_clctrl ''civo'') (demo_world fresh_Cluster) =
       \<lparr>civo_AccessKeyID = ''AK1'', civo_ID = ''id-1'', civo_Name = ''k1-state-store-demo'',
        civo_SecretAccessKeyID = ''SK1''\<rparr>
   \<and> ssc_AccessKeyID (cl_StateStoreCredentials (fresh_Cluster
         \<lparr>cl_StateStoreCredsCheck := True,
          cl_StateStoreCredentials :=
            \<lparr>ssc_AccessKeyID = ''AK1'', ssc_SecretAccessKey = ''SK1'',
             ssc_Name = ''k1-state-store-demo'', ssc_ID = ''id-1''\<rparr>\<rparr>)) = ''AK1''"
proof -
  have p: "CloudProvider (demo_clctrl ''civo'') = ''civo''"
    by simp
  have g: "fst (GetCluster demo_env (ClusterName (demo_clctrl ''civo'')) (demo_world fresh_Cluster))
       = Inr fresh_Cluster"
    by (simp add: demo_GetCluster)
  have k: "\<not> cl_StateStoreCredsCheck fresh_Cluster"
    by (simp add: fresh_Cluster_def)
  have m: "mdb (snd (StateStoreCredentials demo_env (demo_clctrl ''civo'') (demo_world fresh_Cluster)))
         (ClusterName (demo_clctrl ''civo'')) =
       Some (fresh_Cluster
         \<lparr>cl_StateStoreCredsCheck := True,
          cl_StateStoreCredentials :=
            \<lparr>ssc_AccessKeyID = ''AK1'', ssc_SecretAccessKey = ''SK1'',
             ssc_Name = ''k1-state-store-demo'', ssc_ID = ''id-1''\<rparr>\<rparr>)"
    by (simp add: demo_civo_credentials)
  have t: "cl_StateStoreCredsCheck (fresh_Cluster
         \<lparr>cl_StateStoreCredsCheck := True,
          cl_StateStoreCredentials :=
            \<lparr>ssc_AccessKeyID = ''AK1'', ssc_SecretAccessKey = ''SK1'',
             ssc_Name = ''k1-state-store-demo'', ssc_ID = ''id-1''\<rparr>\<rparr>)"
    by simp
  have r: "civo_creds_returned demo_env (demo_clctrl ''civo'') (demo_world fresh_Cluster) =
       \<lparr>civo_AccessKeyID = ''AK1'', civo_ID = ''id-1'', civo_Name = ''k1-state-store-demo'',
        civo_SecretAccessKeyID = ''SK1''\<rparr>"
    by (simp add: civo_creds_returned_def demo_env_def)
  from civo_checkpoint_implies_validated [OF p g k m t] p g k m t r
  show ?thesis
    by simp
qed

subsection \<open>The error of the civo GetAccessCredentials call\<close>

text \<open>
  C3 (an adapter error is returned as it is or with added context, and the checkpoint
  stays false) fails for the civo \<^verbatim>\<open>GetAccessCredentials\<close> call, at two concrete
  inputs. When the adapter returns an error together with an empty credential object,
  the error is logged, the validation fails on the empty access key, the delete
  succeeds, and the error returned is the validation message, which does not hold the
  adapter's error. When the adapter returns an error together with a complete credential
  object, the error is logged, the method returns nil and the checkpoint is stored as
  true. The other adapter calls return their error (lemma
  \<open>sibling_adapter_errors_returned\<close>).
\<close>

theorem civo_GetAccessCredentials_error_dropped:
  "snd (civo_GetAccessCredentials civo_error_env [MdbGetCluster ''demo''] ''k1-state-store-demo'' ''nyc1'')
     = Some ''civo: request failed''
   \<and> fst (StateStoreCredentials civo_error_env (demo_clctrl ''civo'') (demo_world fresh_Cluster)) =
       ReturnErr (Errorf
         ''when retrieving civo access credentials, AccessKeyID was empty - please retry your cluster creation'' [])
   \<and> trace (snd (StateStoreCredentials civo_error_env (demo_clctrl ''civo'') (demo_world fresh_Cluster))) =
       [MdbGetCluster ''demo'',
        CivoGetAccessCredentials ''k1-state-store-demo'' ''nyc1'',
        LogInfo ''civo: request failed'',
        CivoDeleteAccessCredentials ''k1-state-store-demo'' ''nyc1'']
   \<and> snd (civo_GetAccessCredentials civo_error_with_creds_env [MdbGetCluster ''demo'']
          ''k1-state-store-demo'' ''nyc1'')
       = Some ''civo: request failed''
   \<and> fst (StateStoreCredentials civo_error_with_creds_env (demo_clctrl ''civo'') (demo_world fresh_Cluster))
       = ReturnNil
   \<and> map_option cl_StateStoreCredsCheck
       (mdb (snd (StateStoreCredentials civo_error_with_creds_env (demo_clctrl ''civo'')
                    (demo_world fresh_Cluster))) ''demo'') = Some True"
  by (simp add: civo_error_runs)

end
